theory Spec2Isabelle
  imports Complex_Main
begin

section \<open>Data model (src/lib/types.ts)\<close>

text \<open>
  JavaScript numbers are exact integers or rationals (no floating-point rounding error is
  modelled; the values the code divides are millisecond differences and small sums, far
  below \<open>2^53\<close>). An optional property \<open>f?: T\<close> is a field of type \<open>T option\<close>.

  A property of type \<open>Date\<close> holds, at run time, a \<open>Date\<close> object or the ISO string that
  \<open>JSON.stringify\<close> makes of one and \<open>JSON.parse\<close> leaves as it is: request bodies and
  the items read from \<open>localStorage\<close> hold strings. Both denote a time in milliseconds
  since the epoch; strings that denote no time are not modelled.

  The property \<open>id\<close> of \<open>Trip\<close> and \<open>Traveler\<close> is written \<open>trip_id\<close> and
  \<open>traveler_id\<close> (\<open>id\<close> is the identity function of HOL), \<open>createdAt\<close> of
  \<open>Traveler\<close> is \<open>traveler_createdAt\<close>, and \<open>notes\<close> of \<open>Trip\<close> is
  \<open>trip_notes\<close> (\<open>notes\<close> is a keyword).
\<close>

datatype js_date = Date_object int | Date_string int

record Location =
  latitude :: rat
  longitude :: rat
  address :: "string option"
  timestamp :: js_date

datatype AgeGroup = Age_child | Age_teen | Age_adult | Age_senior

datatype Relationship =
  Rel_self | Rel_spouse | Rel_child | Rel_parent | Rel_sibling | Rel_friend
  | Rel_colleague | Rel_other


datatype TransportMode =
  Walk | Bicycle | Motorcycle | Car | Bus | Train | Metro | Auto_rickshaw | Taxi
  | Shared_taxi | Other_mode

datatype TripPurpose =
  Work | Education | Shopping | Medical | Social | Leisure | Religious | Business
  | Return_home | Other_purpose

datatype TripStatus = Planned | Active | Completed | Cancelled

record Trip =
  trip_id :: string
  tripNumber :: int
  status :: TripStatus
  origin :: Location
  destination :: "Location option"
  waypoints :: "Location list option"
  startTime :: js_date
  endTime :: "js_date option"
  duration :: "int option"
  mode :: TransportMode
  purpose :: TripPurpose
  purposeDetail :: "string option"
  primaryTraveler :: string
  accompanyingTravelers :: "string list"
  totalTravelers :: int
  satisfactionRating :: "int option"
  trip_notes :: "string option"
  isPartOfChain :: "bool option"
  chainId :: "string option"
  createdAt :: js_date
  updatedAt :: js_date
  syncedAt :: "js_date option"

text \<open>
  An update payload (\<open>Partial<Trip>\<close>, or the untyped \<open>updates\<close> object of a request
  body): every key may be absent (\<open>None\<close>). A key of an optional property may also be
  present with the value \<open>undefined\<close> or \<open>null\<close> (\<open>Some None\<close>).
\<close>

record TripUpdates =
  u_id :: "string option"
  u_tripNumber :: "int option"
  u_status :: "TripStatus option"
  u_origin :: "Location option"
  u_destination :: "Location option option"
  u_waypoints :: "Location list option option"
  u_startTime :: "js_date option"
  u_endTime :: "js_date option option"
  u_duration :: "int option option"
  u_mode :: "TransportMode option"
  u_purpose :: "TripPurpose option"
  u_purposeDetail :: "string option option"
  u_primaryTraveler :: "string option"
  u_accompanyingTravelers :: "string list option"
  u_totalTravelers :: "int option"
  u_satisfactionRating :: "int option option"
  u_notes :: "string option option"
  u_isPartOfChain :: "bool option option"
  u_chainId :: "string option option"
  u_createdAt :: "js_date option"
  u_updatedAt :: "js_date option"
  u_syncedAt :: "js_date option option"

definition no_updates :: TripUpdates where
  "no_updates = \<lparr> u_id = None, u_tripNumber = None, u_status = None, u_origin = None,
     u_destination = None, u_waypoints = None, u_startTime = None, u_endTime = None,
     u_duration = None, u_mode = None, u_purpose = None, u_purposeDetail = None,
     u_primaryTraveler = None, u_accompanyingTravelers = None, u_totalTravelers = None,
     u_satisfactionRating = None, u_notes = None, u_isPartOfChain = None, u_chainId = None,
     u_createdAt = None, u_updatedAt = None, u_syncedAt = None \<rparr>"

section \<open>JavaScript primitives\<close>

text \<open>
  \<open>new Date(x).getTime()\<close>, for a \<open>Date\<close> object or a date string \<open>x\<close>: the time
  it denotes.
\<close>

fun time_value :: "js_date \<Rightarrow> int" where
  "time_value (Date_object t) = t"
| "time_value (Date_string t) = t"

text \<open>
  \<open>x.getTime()\<close>: a string has no such method, and the call throws a \<open>TypeError\<close>
  (\<open>None\<close>).
\<close>

fun getTime :: "js_date \<Rightarrow> int option" where
  "getTime (Date_object t) = Some t"
| "getTime (Date_string t) = None"

text \<open>
  What \<open>JSON.parse(JSON.stringify(x))\<close> makes of a date, a location and a trip: every
  date becomes its string, since \<open>JSON.parse\<close> is called without a reviver.
\<close>

fun json_date :: "js_date \<Rightarrow> js_date" where
  "json_date d = Date_string (time_value d)"

definition json_location :: "Location \<Rightarrow> Location" where
  "json_location l = l\<lparr> timestamp := json_date (timestamp l) \<rparr>"

definition json_trip :: "Trip \<Rightarrow> Trip" where
  "json_trip t =
     t\<lparr> origin := json_location (origin t),
        destination := map_option json_location (destination t),
        waypoints := map_option (map json_location) (waypoints t),
        startTime := json_date (startTime t),
        endTime := map_option json_date (endTime t),
        createdAt := json_date (createdAt t),
        updatedAt := json_date (updatedAt t),
        syncedAt := map_option json_date (syncedAt t) \<rparr>"

text \<open>One key of an object spread \<open>{...old, ...upd}\<close>: a present key overrides.\<close>

fun spread :: "'a option \<Rightarrow> 'a \<Rightarrow> 'a" where
  "spread None old = old"
| "spread (Some v) old = v"

text \<open>\<open>Math.round\<close>: the nearest integer, a tie going towards \<open>+\<infinity>\<close>.\<close>

definition Math_round :: "rat \<Rightarrow> int" where
  "Math_round x = \<lfloor>x + 1 / 2\<rfloor>"

text \<open>Truthiness of an optional number: \<open>undefined\<close>, \<open>null\<close> and \<open>0\<close> are falsy.\<close>

fun truthy_num :: "int option \<Rightarrow> bool" where
  "truthy_num None = False"
| "truthy_num (Some n) = (n \<noteq> 0)"

text \<open>\<open>Array.prototype.findIndex\<close>, with \<open>None\<close> for \<open>-1\<close>.\<close>

fun findIndex :: "('a \<Rightarrow> bool) \<Rightarrow> 'a list \<Rightarrow> nat option" where
  "findIndex p [] = None"
| "findIndex p (x # xs) =
     (if p x then Some 0 else map_option Suc (findIndex p xs))"

text \<open>\<open>xs.splice(i, 1)\<close>: the array without its element at index \<open>i\<close>.\<close>

definition splice1 :: "nat \<Rightarrow> 'a list \<Rightarrow> 'a list" where
  "splice1 i xs = take i xs @ drop (Suc i) xs"

section \<open>Trip route handlers (src/app/api/trips/route.ts)\<close>

text \<open>The error responses of the handlers, with their HTTP status.\<close>

datatype api_error =
  Missing_required_fields
  | Active_trip_exists
  | Missing_tripId
  | Trip_not_found
  | Failed_to_update_trip

fun http_status :: "api_error \<Rightarrow> nat" where
  "http_status Missing_required_fields = 400"
| "http_status Active_trip_exists = 400"
| "http_status Missing_tripId = 400"
| "http_status Trip_not_found = 404"
| "http_status Failed_to_update_trip = 500"

text \<open>The module-level variables \<open>trips\<close> and \<open>tripIdCounter\<close>.\<close>

record route_state =
  trips :: "Trip list"
  tripIdCounter :: int

definition initial_route_state :: route_state where
  "initial_route_state = \<lparr> trips = [], tripIdCounter = 1 \<rparr>"

text \<open>
  The merge of \<open>PUT\<close>, \<open>storageService.updateTrip\<close> and the hook's \<open>updateTrip\<close>:
  \<open>{ ...trip, ...updates, updatedAt: new Date() }\<close>.
\<close>

definition merge_trip :: "Trip \<Rightarrow> TripUpdates \<Rightarrow> int \<Rightarrow> Trip" where
  "merge_trip t u now =
     \<lparr> trip_id = spread (u_id u) (trip_id t),
       tripNumber = spread (u_tripNumber u) (tripNumber t),
       status = spread (u_status u) (status t),
       origin = spread (u_origin u) (origin t),
       destination = spread (u_destination u) (destination t),
       waypoints = spread (u_waypoints u) (waypoints t),
       startTime = spread (u_startTime u) (startTime t),
       endTime = spread (u_endTime u) (endTime t),
       duration = spread (u_duration u) (duration t),
       mode = spread (u_mode u) (mode t),
       purpose = spread (u_purpose u) (purpose t),
       purposeDetail = spread (u_purposeDetail u) (purposeDetail t),
       primaryTraveler = spread (u_primaryTraveler u) (primaryTraveler t),
       accompanyingTravelers = spread (u_accompanyingTravelers u) (accompanyingTravelers t),
       totalTravelers = spread (u_totalTravelers u) (totalTravelers t),
       satisfactionRating = spread (u_satisfactionRating u) (satisfactionRating t),
       trip_notes = spread (u_notes u) (trip_notes t),
       isPartOfChain = spread (u_isPartOfChain u) (isPartOfChain t),
       chainId = spread (u_chainId u) (chainId t),
       createdAt = spread (u_createdAt u) (createdAt t),
       updatedAt = Date_object now,
       syncedAt = spread (u_syncedAt u) (syncedAt t) \<rparr>"

text \<open>
  The guard of the duration rule of \<open>PUT\<close>:
  \<open>updates.status === 'completed' && updates.destination && !updates.duration\<close>.
\<close>

definition completing :: "TripUpdates \<Rightarrow> bool" where
  "completing u \<longleftrightarrow>
     u_status u = Some Completed
     \<and> (case u_destination u of Some (Some d) \<Rightarrow> True | _ \<Rightarrow> False)
     \<and> \<not> truthy_num (case u_duration u of Some d \<Rightarrow> d | None \<Rightarrow> None)"

text \<open>\<open>updates.endTime || new Date()\<close>.\<close>

definition endTime_or_now :: "TripUpdates \<Rightarrow> int \<Rightarrow> js_date" where
  "endTime_or_now u now =
     (case u_endTime u of Some (Some e) \<Rightarrow> e | _ \<Rightarrow> Date_object now)"

text \<open>
  \<open>PUT\<close>, with the two readings of the clock as arguments: \<open>now\<close> for \<open>updatedAt\<close> and
  \<open>now'\<close> for the end time when the payload has none. An empty \<open>tripId\<close> stands for a
  falsy one. A body without \<open>updates\<close> (\<open>None\<close>) is merged as an empty payload; the
  test of \<open>updates.status\<close> then throws, and the handler answers 500 after the write.
\<close>

definition PUT :: "string \<Rightarrow> TripUpdates option \<Rightarrow> int \<Rightarrow> int \<Rightarrow> route_state
    \<Rightarrow> (api_error + Trip) \<times> route_state" where
  "PUT tripId updates now now' st =
     (if tripId = [] then (Inl Missing_tripId, st)
      else case findIndex (\<lambda>trip. trip_id trip = tripId) (trips st) of
        None \<Rightarrow> (Inl Trip_not_found, st)
      | Some tripIndex \<Rightarrow>
          (case updates of
             None \<Rightarrow>
               (Inl Failed_to_update_trip,
                st\<lparr> trips := (trips st)
                      [tripIndex := merge_trip (trips st ! tripIndex) no_updates now] \<rparr>)
           | Some u \<Rightarrow>
               let merged = merge_trip (trips st ! tripIndex) u now;
                   result =
                     (if completing u
                      then merged\<lparr> duration :=
                        Some (Math_round
                          (of_int (time_value (endTime_or_now u now')
                                     - time_value (startTime merged))
                             / of_int (1000 * 60))) \<rparr>
                      else merged)
               in (Inr result, st\<lparr> trips := (trips st)[tripIndex := result] \<rparr>)))"

text \<open>The request body of \<open>POST\<close>; an absent (or falsy) key is \<open>None\<close>.\<close>

record NewTripBody =
  b_origin :: "Location option"
  b_mode :: "TransportMode option"
  b_purpose :: "TripPurpose option"
  b_purposeDetail :: "string option"
  b_accompanyingTravelers :: "string list option"
  b_notes :: "string option"

text \<open>
  \<open>POST\<close>. The generated id \<open>trip_${Date.now()}_${random}\<close> is \<open>''trip_''\<close> followed by
  the argument \<open>suffix\<close>; \<open>now\<close> is the reading of the clock.
\<close>

definition POST :: "NewTripBody \<Rightarrow> string \<Rightarrow> int \<Rightarrow> route_state
    \<Rightarrow> (api_error + Trip) \<times> route_state" where
  "POST body suffix now st =
     (case (b_origin body, b_mode body, b_purpose body) of
        (Some origin', Some mode', Some purpose') \<Rightarrow>
          (case find (\<lambda>trip. primaryTraveler trip = ''current_user'' \<and> status trip = Active)
                  (trips st) of
             Some existingActiveTrip \<Rightarrow> (Inl Active_trip_exists, st)
           | None \<Rightarrow>
               let newTrip =
                 \<lparr> trip_id = ''trip_'' @ suffix,
                   tripNumber = tripIdCounter st,
                   status = Active,
                   origin = origin'\<lparr> timestamp := Date_object (time_value (timestamp origin')) \<rparr>,
                   destination = None,
                   waypoints = None,
                   startTime = Date_object now,
                   endTime = None,
                   duration = None,
                   mode = mode',
                   purpose = purpose',
                   purposeDetail = b_purposeDetail body,
                   primaryTraveler = ''current_user'',
                   accompanyingTravelers =
                     (case b_accompanyingTravelers body of Some a \<Rightarrow> a | None \<Rightarrow> []),
                   totalTravelers =
                     1 + (case b_accompanyingTravelers body of
                            Some a \<Rightarrow> int (length a) | None \<Rightarrow> 0),
                   satisfactionRating = None,
                   trip_notes = b_notes body,
                   isPartOfChain = None,
                   chainId = None,
                   createdAt = Date_object now,
                   updatedAt = Date_object now,
                   syncedAt = None \<rparr>
               in (Inr newTrip,
                   st\<lparr> trips := trips st @ [newTrip],
                       tripIdCounter := tripIdCounter st + 1 \<rparr>))
      | _ \<Rightarrow> (Inl Missing_required_fields, st))"

text \<open>\<open>DELETE\<close>; an empty \<open>tripId\<close> stands for a missing parameter.\<close>

definition DELETE :: "string \<Rightarrow> route_state \<Rightarrow> (api_error + Trip) \<times> route_state" where
  "DELETE tripId st =
     (if tripId = [] then (Inl Missing_tripId, st)
      else case findIndex (\<lambda>trip. trip_id trip = tripId) (trips st) of
        None \<Rightarrow> (Inl Trip_not_found, st)
      | Some tripIndex \<Rightarrow>
          (Inr (trips st ! tripIndex), st\<lparr> trips := splice1 tripIndex (trips st) \<rparr>))"

text \<open>A sequence of requests, each run to completion on the state the last one left.\<close>

datatype request =
  Post NewTripBody string int
  | Put string "TripUpdates option" int int
  | Delete string

fun handle :: "request \<Rightarrow> route_state \<Rightarrow> route_state" where
  "handle (Post body suffix now) st = snd (POST body suffix now st)"
| "handle (Put tripId updates now now') st = snd (PUT tripId updates now now' st)"
| "handle (Delete tripId) st = snd (DELETE tripId st)"

definition run :: "request list \<Rightarrow> route_state \<Rightarrow> route_state" where
  "run reqs st = fold handle reqs st"

text \<open>The number of trips of an owner with status \<open>active\<close>.\<close>

definition active_count :: "string \<Rightarrow> route_state \<Rightarrow> nat" where
  "active_count owner st =
     length (filter (\<lambda>t. primaryTraveler t = owner \<and> status t = Active) (trips st))"

text \<open>
  A request that cannot activate a trip or hand it to another owner by a merge: any
  \<open>POST\<close> or \<open>DELETE\<close>, and a \<open>PUT\<close> whose payload has neither \<open>status: 'active'\<close> nor
  the key \<open>primaryTraveler\<close>.
\<close>

fun no_reactivation :: "request \<Rightarrow> bool" where
  "no_reactivation (Put tripId (Some updates) now now') =
     (u_status updates \<noteq> Some Active \<and> u_primaryTraveler updates = None)"
| "no_reactivation _ = True"

text \<open>
  The trip numbers that the successful \<open>POST\<close>s of a sequence of requests assign, in
  order.
\<close>

fun assigned_numbers :: "request list \<Rightarrow> route_state \<Rightarrow> int list" where
  "assigned_numbers [] st = []"
| "assigned_numbers (Post body suffix now # reqs) st =
     (case POST body suffix now st of
        (Inr t, st') \<Rightarrow> tripNumber t # assigned_numbers reqs st'
      | (Inl e, st') \<Rightarrow> assigned_numbers reqs st')"
| "assigned_numbers (r # reqs) st = assigned_numbers reqs (handle r st)"

text \<open>
  The statistics of \<open>OPTIONS\<close> with \<open>action=stats\<close>: the field \<open>avgDuration\<close>. A division
  is \<open>None\<close> when the divisor is zero (JavaScript's \<open>NaN\<close> or \<open>Infinity\<close>).
\<close>

definition js_divide :: "rat \<Rightarrow> rat \<Rightarrow> rat option" where
  "js_divide a b = (if b = 0 then None else Some (a / b))"

text \<open>\<open>t.duration || 0\<close>.\<close>

definition duration_or_0 :: "Trip \<Rightarrow> int" where
  "duration_or_0 t = (case duration t of Some d \<Rightarrow> d | None \<Rightarrow> 0)"

definition stats_avgDuration :: "string \<Rightarrow> route_state \<Rightarrow> int option" where
  "stats_avgDuration userId st =
     (let userTrips = filter (\<lambda>trip. primaryTraveler trip = userId) (trips st) in
      map_option Math_round
        (js_divide
           (of_int (foldl (\<lambda>sum t. sum + duration_or_0 t) 0
                      (filter (\<lambda>t. truthy_num (duration t)) userTrips)))
           (of_int (max (int (length (filter (\<lambda>t. truthy_num (duration t)) userTrips))) 1))))"

section \<open>Local storage (src/lib/storage.ts)\<close>

text \<open>
  The item \<open>natpac_travel_trips\<close> of \<open>localStorage\<close> is a list of trips (an absent item
  reads as the empty list, as \<open>getItem\<close>'s default does), written by
  \<open>JSON.stringify\<close> and read by \<open>JSON.parse\<close>. The argument \<open>avail\<close> says whether
  \<open>localStorage\<close> works in this call: when it does not, a read gives the default and a
  write returns \<open>false\<close>. Every function returns its result and the item.
\<close>

definition getTrips :: "bool \<Rightarrow> Trip list \<Rightarrow> Trip list" where
  "getTrips avail item = (if avail then item else [])"

definition saveTrips :: "bool \<Rightarrow> Trip list \<Rightarrow> Trip list \<Rightarrow> bool \<times> Trip list" where
  "saveTrips avail ts item = (if avail then (True, map json_trip ts) else (False, item))"

definition addTrip :: "bool \<Rightarrow> Trip \<Rightarrow> Trip list \<Rightarrow> bool \<times> Trip list" where
  "addTrip avail trip item = saveTrips avail (getTrips avail item @ [trip]) item"

definition storage_updateTrip ::
    "bool \<Rightarrow> string \<Rightarrow> TripUpdates \<Rightarrow> int \<Rightarrow> Trip list \<Rightarrow> bool \<times> Trip list" where
  "storage_updateTrip avail tripId updates now item =
     (let ts = getTrips avail item in
      case findIndex (\<lambda>trip. trip_id trip = tripId) ts of
        None \<Rightarrow> (False, item)
      | Some index \<Rightarrow> saveTrips avail (ts[index := merge_trip (ts ! index) updates now]) item)"

definition storage_deleteTrip :: "bool \<Rightarrow> string \<Rightarrow> Trip list \<Rightarrow> bool \<times> Trip list" where
  "storage_deleteTrip avail tripId item =
     saveTrips avail (filter (\<lambda>trip. trip_id trip \<noteq> tripId) (getTrips avail item)) item"

section \<open>The hook useTrips (src/hooks/useTrips.ts)\<close>

text \<open>
  The React state of the hook (\<open>trips\<close>, written \<open>h_trips\<close>, \<open>activeTrip\<close>, \<open>loading\<close>,
  \<open>error\<close>) together with the stored item. Each callback runs on the state that the
  last one left and returns its result and the new state.
\<close>

record hook_state =
  h_trips :: "Trip list"
  activeTrip :: "Trip option"
  loading :: bool
  error :: "string option"
  stored :: "Trip list"

definition initial_hook_state :: hook_state where
  "initial_hook_state =
     \<lparr> h_trips = [], activeTrip = None, loading = False, error = None, stored = [] \<rparr>"

text \<open>\<open>loadTrips\<close>, run on mount and by \<open>refreshTrips\<close>.\<close>

definition loadTrips :: "bool \<Rightarrow> hook_state \<Rightarrow> hook_state" where
  "loadTrips avail st =
     (let storedTrips = getTrips avail (stored st) in
      st\<lparr> h_trips := storedTrips,
          activeTrip := find (\<lambda>trip. status trip = Active) storedTrips \<rparr>)"

definition generateTripNumber :: "Trip list \<Rightarrow> int" where
  "generateTripNumber ts =
     (let existingNumbers = map tripNumber ts in
      if length existingNumbers > 0 then Max (set existingNumbers) + 1 else 1)"

text \<open>The argument of \<open>createTrip\<close>: \<open>NewTripForm & { origin: Location }\<close>.\<close>

record NewTripForm =
  f_origin :: Location
  f_mode :: TransportMode
  f_purpose :: TripPurpose
  f_purposeDetail :: "string option"
  f_accompanyingTravelers :: "string list"
  f_notes :: "string option"

definition createTrip :: "NewTripForm \<Rightarrow> string \<Rightarrow> int \<Rightarrow> bool \<Rightarrow> hook_state
    \<Rightarrow> string option \<times> hook_state" where
  "createTrip tripData suffix now avail st =
     (case activeTrip st of
        Some a \<Rightarrow>
          (None,
           st\<lparr> error := Some ''Please complete or cancel the current active trip before starting a new one'',
               loading := False \<rparr>)
      | None \<Rightarrow>
          let tripId = ''trip_'' @ suffix;
              newTrip =
                \<lparr> trip_id = tripId,
                  tripNumber = generateTripNumber (h_trips st),
                  status = Active,
                  origin = f_origin tripData,
                  destination = None,
                  waypoints = None,
                  startTime = Date_object now,
                  endTime = None,
                  duration = None,
                  mode = f_mode tripData,
                  purpose = f_purpose tripData,
                  purposeDetail = f_purposeDetail tripData,
                  primaryTraveler = ''current_user'',
                  accompanyingTravelers = f_accompanyingTravelers tripData,
                  totalTravelers = 1 + int (length (f_accompanyingTravelers tripData)),
                  satisfactionRating = None,
                  trip_notes = f_notes tripData,
                  isPartOfChain = None,
                  chainId = None,
                  createdAt = Date_object now,
                  updatedAt = Date_object now,
                  syncedAt = None \<rparr>;
              (success, item) = addTrip avail newTrip (stored st)
          in if success
             then (Some tripId,
                   st\<lparr> h_trips := h_trips st @ [newTrip], activeTrip := Some newTrip,
                       loading := False, error := None, stored := item \<rparr>)
             else (None,
                   st\<lparr> loading := False, error := Some ''Failed to save trip'',
                       stored := item \<rparr>))"

text \<open>
  \<open>updateTrip\<close>. The clock is read three times: by \<open>storageService.updateTrip\<close>
  (\<open>nowS\<close>), by the update of \<open>trips\<close> (\<open>nowT\<close>) and by that of \<open>activeTrip\<close> (\<open>nowA\<close>).
\<close>

definition updateTrip :: "string \<Rightarrow> TripUpdates \<Rightarrow> int \<Rightarrow> int \<Rightarrow> int \<Rightarrow> bool \<Rightarrow> hook_state
    \<Rightarrow> bool \<times> hook_state" where
  "updateTrip tripId updates nowS nowT nowA avail st =
     (let (success, item) = storage_updateTrip avail tripId updates nowS (stored st) in
      if success
      then (True,
            st\<lparr> h_trips :=
                  map (\<lambda>trip. if trip_id trip = tripId then merge_trip trip updates nowT
                              else trip) (h_trips st),
                activeTrip :=
                  (case activeTrip st of
                     Some a \<Rightarrow>
                       if trip_id a = tripId then Some (merge_trip a updates nowA) else Some a
                   | None \<Rightarrow> None),
                loading := False, error := None, stored := item \<rparr>)
      else (False,
            st\<lparr> loading := False, error := Some ''Failed to update trip'',
                stored := item \<rparr>))"

text \<open>The payload that \<open>completeTrip\<close> builds; \<open>rating\<close> may be \<open>undefined\<close>.\<close>

definition completion_updates ::
    "Location \<Rightarrow> js_date \<Rightarrow> int \<Rightarrow> int option \<Rightarrow> TripUpdates" where
  "completion_updates destination' endTime' duration' rating =
     no_updates\<lparr> u_status := Some Completed,
                 u_destination := Some (Some destination'),
                 u_endTime := Some (Some endTime'),
                 u_duration := Some (Some duration'),
                 u_satisfactionRating := Some rating \<rparr>"

text \<open>
  \<open>completeTrip\<close>; \<open>now\<close> is its own reading of the clock, the end time. It calls
  \<open>trip.startTime.getTime()\<close> on the trip found in the hook's state: when the start time
  is a string the call throws, and the promise is rejected with nothing changed.
\<close>

datatype js_exception = TypeError

definition completeTrip :: "string \<Rightarrow> Location \<Rightarrow> int option \<Rightarrow> int \<Rightarrow> int \<Rightarrow> int \<Rightarrow> int
    \<Rightarrow> bool \<Rightarrow> hook_state \<Rightarrow> (js_exception + bool) \<times> hook_state" where
  "completeTrip tripId destination' rating now nowS nowT nowA avail st =
     (case find (\<lambda>t. trip_id t = tripId) (h_trips st) of
        None \<Rightarrow> (Inr False, st\<lparr> error := Some ''Trip not found'' \<rparr>)
      | Some trip \<Rightarrow>
          (case getTime (startTime trip) of
             None \<Rightarrow> (Inl TypeError, st)
           | Some start \<Rightarrow>
               let endTime' = Date_object now;
                   duration' = Math_round (of_int (now - start) / of_int (1000 * 60));
                   updates = completion_updates destination' endTime' duration' rating;
                   (success, st') = updateTrip tripId updates nowS nowT nowA avail st
               in if success
                     \<and> (case activeTrip st of Some a \<Rightarrow> trip_id a = tripId | None \<Rightarrow> False)
                  then (Inr success, st'\<lparr> activeTrip := None \<rparr>)
                  else (Inr success, st')))"

text \<open>
  What the specification says \<open>completeTrip\<close> is: \<open>updateTrip\<close> with
  \<open>status=completed, destination, endTime=now, duration=computed, satisfactionRating=rating\<close>,
  the duration computed from the start time of the trip to \<open>now\<close>, and a failure when
  the trip is missing.
\<close>

definition completeTrip_spec :: "string \<Rightarrow> Location \<Rightarrow> int option \<Rightarrow> int \<Rightarrow> int \<Rightarrow> int \<Rightarrow> int
    \<Rightarrow> bool \<Rightarrow> hook_state \<Rightarrow> bool \<times> hook_state" where
  "completeTrip_spec tripId destination' rating now nowS nowT nowA avail st =
     (case find (\<lambda>t. trip_id t = tripId) (h_trips st) of
        None \<Rightarrow> (False, st\<lparr> error := Some ''Trip not found'' \<rparr>)
      | Some trip \<Rightarrow>
          updateTrip tripId
            (no_updates\<lparr> u_status := Some Completed,
                         u_destination := Some (Some destination'),
                         u_endTime := Some (Some (Date_object now)),
                         u_duration :=
                           Some (Some (Math_round
                             (of_int (now - time_value (startTime trip)) / 60000))),
                         u_satisfactionRating := Some rating \<rparr>)
            nowS nowT nowA avail st)"

definition deleteTrip :: "string \<Rightarrow> bool \<Rightarrow> hook_state \<Rightarrow> bool \<times> hook_state" where
  "deleteTrip tripId avail st =
     (let (success, item) = storage_deleteTrip avail tripId (stored st) in
      if success
      then (True,
            st\<lparr> h_trips := filter (\<lambda>trip. trip_id trip \<noteq> tripId) (h_trips st),
                activeTrip :=
                  (case activeTrip st of
                     Some a \<Rightarrow> if trip_id a = tripId then None else Some a
                   | None \<Rightarrow> None),
                loading := False, error := None, stored := item \<rparr>)
      else (False,
            st\<lparr> loading := False, error := Some ''Failed to delete trip'',
                stored := item \<rparr>))"

text \<open>
  A sequence of calls of the hook's callbacks, each run on the state the last one
  left, and the trip numbers that its successful \<open>createTrip\<close> calls assign, in order:
  a successful \<open>createTrip\<close> appends its trip to the list.
\<close>

datatype hook_call =
  Create NewTripForm string int bool
  | Complete string Location "int option" int int int int bool
  | Delete_trip string bool

fun hook_step :: "hook_call \<Rightarrow> hook_state \<Rightarrow> hook_state" where
  "hook_step (Create tripData suffix now avail) st =
     snd (createTrip tripData suffix now avail st)"
| "hook_step (Complete tripId destination' rating now nowS nowT nowA avail) st =
     snd (completeTrip tripId destination' rating now nowS nowT nowA avail st)"
| "hook_step (Delete_trip tripId avail) st = snd (deleteTrip tripId avail st)"

fun hook_assigned_numbers :: "hook_call list \<Rightarrow> hook_state \<Rightarrow> int list" where
  "hook_assigned_numbers [] st = []"
| "hook_assigned_numbers (Create tripData suffix now avail # calls) st =
     (case createTrip tripData suffix now avail st of
        (Some tripId, st') \<Rightarrow> tripNumber (last (h_trips st')) # hook_assigned_numbers calls st'
      | (None, st') \<Rightarrow> hook_assigned_numbers calls st')"
| "hook_assigned_numbers (c # calls) st = hook_assigned_numbers calls (hook_step c st)"

text \<open>
  Every \<open>deleteTrip\<close> of the sequence leaves the largest trip number in the list: it
  names no trip of the list, or a trip that stays has a number at least as large as
  every number of the list.
\<close>

fun deletions_keep_largest :: "hook_call list \<Rightarrow> hook_state \<Rightarrow> bool" where
  "deletions_keep_largest [] st = True"
| "deletions_keep_largest (Delete_trip tripId avail # calls) st =
     (((\<forall>t \<in> set (h_trips st). trip_id t \<noteq> tripId)
        \<or> (\<exists>k \<in> set (h_trips st). trip_id k \<noteq> tripId
              \<and> (\<forall>t \<in> set (h_trips st). tripNumber t \<le> tripNumber k)))
      \<and> deletions_keep_largest calls (snd (deleteTrip tripId avail st)))"
| "deletions_keep_largest (c # calls) st = deletions_keep_largest calls (hook_step c st)"

text \<open>\<open>getTripStats\<close>: the field \<open>avgDuration\<close>.\<close>

definition getTripStats_avgDuration :: "hook_state \<Rightarrow> int option" where
  "getTripStats_avgDuration st =
     (let completedTrips =
            filter (\<lambda>trip. status trip = Completed \<and> truthy_num (duration trip)) (h_trips st)
      in if length completedTrips > 0
         then map_option Math_round
                (js_divide (of_int (foldl (\<lambda>sum trip. sum + duration_or_0 trip) 0 completedTrips))
                           (of_int (int (length completedTrips))))
         else Some 0)"

section \<open>Traveler route handlers (src/app/api/travelers/route.ts)\<close>









section \<open>Example data\<close>

definition kochi :: Location where
  "kochi =
     \<lparr> latitude = 85 / 10, longitude = 769 / 10, address = None,
       timestamp = Date_object 0 \<rparr>"

definition work_by_car :: NewTripBody where
  "work_by_car =
     \<lparr> b_origin = Some (json_location kochi), b_mode = Some Car, b_purpose = Some Work,
       b_purposeDetail = None, b_accompanyingTravelers = None, b_notes = None \<rparr>"

definition work_by_car_form :: NewTripForm where
  "work_by_car_form =
     \<lparr> f_origin = kochi, f_mode = Car, f_purpose = Work, f_purposeDetail = None,
       f_accompanyingTravelers = [], f_notes = None \<rparr>"

text \<open>The route after one trip was created at time 0.\<close>

definition route_one_trip :: route_state where
  "route_one_trip = run [Post work_by_car ''1'' 0] initial_route_state"

text \<open>The route after one trip with one accompanying traveler was created.\<close>

definition route_trip_with_companion :: route_state where
  "route_trip_with_companion =
     snd (POST (work_by_car\<lparr> b_accompanyingTravelers := Some [''traveler_1''] \<rparr>) ''1'' 0
            initial_route_state)"

text \<open>The hook, with working storage, after one trip was created at time 0.\<close>

definition hook_one_trip :: hook_state where
  "hook_one_trip = snd (createTrip work_by_car_form ''1'' 0 True initial_hook_state)"

text \<open>A payload that completes a trip at 450000 ms, seven and a half minutes.\<close>

definition complete_at_450000 :: TripUpdates where
  "complete_at_450000 =
     no_updates\<lparr> u_status := Some Completed,
                 u_destination := Some (Some (json_location kochi)),
                 u_endTime := Some (Some (Date_string 450000)) \<rparr>"

text \<open>A payload that completes a trip and leaves the end time to the clock.\<close>

definition complete_without_endTime :: TripUpdates where
  "complete_without_endTime =
     no_updates\<lparr> u_status := Some Completed,
                 u_destination := Some (Some (json_location kochi)) \<rparr>"

text \<open>
  A hook mounted anew on the storage that \<open>hook_one_trip\<close> left, as on another page or
  after a reload.
\<close>

definition hook_reloaded :: hook_state where
  "hook_reloaded = loadTrips True (initial_hook_state\<lparr> stored := stored hook_one_trip \<rparr>)"





text \<open>
  Three trips created and completed in turn by one hook, the first one deleted while
  the second is active.
\<close>

definition three_trips :: "hook_call list" where
  "three_trips =
     [Create work_by_car_form ''1'' 0 True,
      Complete ''trip_1'' kochi None 10 11 12 13 True,
      Create work_by_car_form ''2'' 20 True,
      Delete_trip ''trip_1'' True,
      Complete ''trip_2'' kochi None 30 31 32 33 True,
      Create work_by_car_form ''3'' 40 True]"








section \<open>Auxiliary facts\<close>

lemma findIndex_None_iff: "findIndex p xs = None \<longleftrightarrow> (\<forall>x \<in> set xs. \<not> p x)"
  by (induction xs) auto

lemma findIndex_Some_less: "findIndex p xs = Some i \<Longrightarrow> i < length xs \<and> p (xs ! i)"
  by (induction xs arbitrary: i) (auto split: if_splits)

lemma filter_update_le:
  "i < length xs \<Longrightarrow> (P y \<Longrightarrow> P (xs ! i)) \<Longrightarrow>
     length (filter P (xs[i := y])) \<le> length (filter P xs)"
proof (induction xs arbitrary: i)
  case Nil
  then show ?case by simp
next
  case (Cons x xs)
  show ?case
  proof (cases i)
    case 0
    with Cons.prems show ?thesis by auto
  next
    case (Suc j)
    with Cons.prems have "length (filter P (xs[j := y])) \<le> length (filter P xs)"
      by (intro Cons.IH) auto
    with Suc show ?thesis by simp
  qed
qed

lemma filter_splice1_le: "length (filter P (splice1 i xs)) \<le> length (filter P xs)"
proof -
  have "length (filter P (drop (Suc i) xs)) \<le> length (filter P (drop i xs))"
    by (induction xs arbitrary: i) (auto simp: drop_Cons split: nat.splits intro: le_SucI)
  moreover have "length (filter P xs) = length (filter P (take i xs)) + length (filter P (drop i xs))"
    by (metis append_take_drop_id filter_append length_append)
  ultimately show ?thesis by (simp add: splice1_def)
qed

lemma merge_trip_counted:
  assumes "u_status u \<noteq> Some Active" and "u_primaryTraveler u = None"
    and "primaryTraveler (merge_trip t u now\<lparr>duration := d\<rparr>) = owner \<and> status (merge_trip t u now\<lparr>duration := d\<rparr>) = Active"
  shows "primaryTraveler t = owner \<and> status t = Active"
  using assms by (cases "u_status u") (auto simp: merge_trip_def)

lemma merge_trip_counted':
  assumes "u_status u \<noteq> Some Active" and "u_primaryTraveler u = None"
    and "primaryTraveler (merge_trip t u now) = owner \<and> status (merge_trip t u now) = Active"
  shows "primaryTraveler t = owner \<and> status t = Active"
  using assms by (cases "u_status u") (auto simp: merge_trip_def)

lemma merge_trip_no_updates_counted:
  "primaryTraveler (merge_trip t no_updates now) = primaryTraveler t"
  "status (merge_trip t no_updates now) = status t"
  by (simp_all add: merge_trip_def no_updates_def)

lemma active_count_PUT:
  assumes "no_reactivation (Put tripId updates now now')"
  shows "active_count owner (snd (PUT tripId updates now now' st)) \<le> active_count owner st"
proof (cases "tripId = []")
  case True
  then show ?thesis by (simp add: PUT_def)
next
  case ne: False
  show ?thesis
  proof (cases "findIndex (\<lambda>trip. trip_id trip = tripId) (trips st)")
    case None
    with ne show ?thesis by (simp add: PUT_def)
  next
    case (Some i)
    then have i: "i < length (trips st)" by (simp add: findIndex_Some_less)
    show ?thesis
    proof (cases updates)
      case None
      with ne Some i show ?thesis
        by (auto simp: PUT_def active_count_def merge_trip_no_updates_counted
            intro!: filter_update_le)
    next
      case (Some u)
      with assms have "u_status u \<noteq> Some Active" and "u_primaryTraveler u = None"
        by simp_all
      with ne \<open>findIndex (\<lambda>trip. trip_id trip = tripId) (trips st) = Some i\<close> i Some
      show ?thesis
        by (auto simp: PUT_def active_count_def Let_def
            intro!: filter_update_le dest: merge_trip_counted merge_trip_counted')
    qed
  qed
qed

lemma active_count_DELETE:
  "active_count owner (snd (DELETE tripId st)) \<le> active_count owner st"
  by (auto simp: DELETE_def active_count_def filter_splice1_le split: option.splits)

lemma active_count_POST:
  assumes "active_count owner st \<le> Suc 0"
  shows "active_count owner (snd (POST body suffix now st)) \<le> Suc 0"
proof (cases "POST body suffix now st")
  case (Pair r st')
  show ?thesis
  proof (cases r)
    case (Inl e)
    with Pair have "st' = st"
      by (auto simp: POST_def Let_def split: option.splits)
    with Pair assms show ?thesis by simp
  next
    case (Inr t)
    with Pair have none: "find (\<lambda>trip. primaryTraveler trip = ''current_user'' \<and> status trip = Active) (trips st) = None"
      and st': "trips st' = trips st @ [t]" and t: "primaryTraveler t = ''current_user''"
      by (auto simp: POST_def Let_def split: option.splits)
    show ?thesis
    proof (cases "owner = ''current_user''")
      case True
      from none have "filter (\<lambda>t. primaryTraveler t = ''current_user'' \<and> status t = Active) (trips st) = []"
        by (simp add: find_None_iff filter_empty_conv)
      with True Pair st' show ?thesis by (simp add: active_count_def)
    next
      case False
      with Pair st' t assms show ?thesis by (simp add: active_count_def)
    qed
  qed
qed

lemma active_count_handle:
  "no_reactivation r \<Longrightarrow> active_count owner st \<le> Suc 0 \<Longrightarrow>
     active_count owner (handle r st) \<le> Suc 0"
proof (cases r)
  case (Post b s n)
  assume "active_count owner st \<le> Suc 0"
  with Post show ?thesis by (simp add: active_count_POST)
next
  case (Put i u n n')
  assume "no_reactivation r" "active_count owner st \<le> Suc 0"
  with Put active_count_PUT [of i u n n' owner st] show ?thesis by simp
next
  case (Delete i)
  assume "active_count owner st \<le> Suc 0"
  with Delete active_count_DELETE[of owner i st] show ?thesis by simp
qed

lemma active_count_run:
  "\<forall>r \<in> set reqs. no_reactivation r \<Longrightarrow> active_count owner st \<le> Suc 0 \<Longrightarrow>
     active_count owner (run reqs st) \<le> Suc 0"
  unfolding run_def
  by (induction reqs arbitrary: st) (simp_all add: active_count_handle)

lemma POST_while_active:
  assumes "\<exists>t \<in> set (trips st). primaryTraveler t = ''current_user'' \<and> status t = Active"
  shows "\<exists>e. POST body suffix now st = (Inl e, st) \<and> http_status e = 400
     \<and> (b_origin body \<noteq> None \<and> b_mode body \<noteq> None \<and> b_purpose body \<noteq> None \<longrightarrow> e = Active_trip_exists)"
proof -
  from assms have "find (\<lambda>trip. primaryTraveler trip = ''current_user'' \<and> status trip = Active) (trips st) \<noteq> None"
    by (auto simp: find_None_iff)
  then show ?thesis
    by (auto simp: POST_def split: option.splits)
qed

lemma POST_Inr:
  "POST body suffix now st = (Inr t, st') \<Longrightarrow>
     tripNumber t = tripIdCounter st \<and> tripIdCounter st' = tripIdCounter st + 1
     \<and> trips st' = trips st @ [t]"
  by (auto simp: POST_def Let_def split: option.splits)

lemma POST_Inl: "POST body suffix now st = (Inl e, st') \<Longrightarrow> st' = st"
  by (auto simp: POST_def Let_def split: option.splits)

lemma tripIdCounter_PUT: "tripIdCounter (snd (PUT tripId u now now' st)) = tripIdCounter st"
  by (simp add: PUT_def Let_def split: option.splits)

lemma tripIdCounter_DELETE: "tripIdCounter (snd (DELETE tripId st)) = tripIdCounter st"
  by (simp add: DELETE_def split: option.splits)

lemma assigned_numbers_counter:
  "assigned_numbers reqs st =
     map (\<lambda>k. tripIdCounter st + int k) [0..<length (assigned_numbers reqs st)]"
proof (induction reqs arbitrary: st)
  case Nil
  then show ?case by simp
next
  case (Cons r reqs)
  show ?case
  proof (cases r)
    case (Post body suffix now)
    show ?thesis
    proof (cases "POST body suffix now st")
      case (Pair res st')
      show ?thesis
      proof (cases res)
        case (Inl e)
        with Pair have "st' = st" by (simp add: POST_Inl)
        with Pair Inl Post Cons.IH [of st] show ?thesis by simp
      next
        case (Inr t)
        with Pair have t: "tripNumber t = tripIdCounter st"
          and c: "tripIdCounter st' = tripIdCounter st + 1"
          using POST_Inr by blast+
        have eq: "(\<lambda>k. tripIdCounter st' + int k) = (\<lambda>k. tripIdCounter st + int (Suc k))"
          using c by (auto simp: fun_eq_iff)
        have "assigned_numbers reqs st' =
          map (\<lambda>k. tripIdCounter st + int (Suc k)) [0..<length (assigned_numbers reqs st')]"
          using Cons.IH [of st'] unfolding eq .
        with Pair Inr Post t show ?thesis
          by (simp add: map_upt_Suc del: upt_Suc)
      qed
    qed
  next
    case (Put tripId u now now')
    with Cons.IH [of "snd (PUT tripId u now now' st)"] show ?thesis
      by (simp add: tripIdCounter_PUT)
  next
    case (Delete tripId)
    with Cons.IH [of "snd (DELETE tripId st)"] show ?thesis
      by (simp add: tripIdCounter_DELETE)
  qed
qed

lemma generateTripNumber_max:
  "generateTripNumber ts = (if ts = [] then 1 else Max (set (map tripNumber ts)) + 1)"
  by (simp add: generateTripNumber_def)

lemma createTrip_Some:
  "createTrip tripData suffix now avail st = (Some tid, st') \<Longrightarrow>
     \<exists>t. h_trips st' = h_trips st @ [t] \<and> trip_id t = tid
       \<and> tripNumber t = generateTripNumber (h_trips st)
       \<and> totalTravelers t = 1 + int (length (accompanyingTravelers t))
       \<and> status t = Active"
  by (auto simp: createTrip_def Let_def split: option.splits prod.splits if_splits)

lemma PUT_found:
  assumes "tripId \<noteq> []" and "findIndex (\<lambda>trip. trip_id trip = tripId) (trips st) = Some i"
  shows "PUT tripId (Some u) now now' st =
    (let merged = merge_trip (trips st ! i) u now;
         t' = (if completing u
               then merged\<lparr> duration := Some (Math_round
                      (of_int (time_value (endTime_or_now u now') - time_value (startTime merged))
                         / 60000)) \<rparr>
               else merged)
     in (Inr t', st\<lparr> trips := (trips st)[i := t'] \<rparr>))"
  using assms by (simp add: PUT_def Let_def)

lemma completing_iff:
  "completing u \<longleftrightarrow> u_status u = Some Completed \<and> (\<exists>d. u_destination u = Some (Some d))
     \<and> (u_duration u = None \<or> u_duration u = Some None \<or> u_duration u = Some (Some 0))"
proof -
  have "\<not> truthy_num d \<longleftrightarrow> d = None \<or> d = Some 0" for d
    by (cases d) auto
  then show ?thesis
    by (auto simp: completing_def split: option.splits)
qed

lemma duration_merge_trip: "duration (merge_trip t u now) = spread (u_duration u) (duration t)"
  by (simp add: merge_trip_def)

lemma find_map_same:
  assumes "\<And>x. P (f x) = P x"
  shows "find P (map f xs) = map_option f (find P xs)"
  using assms by (induction xs) auto

lemma updateTrip_True:
  assumes "updateTrip tripId u nowS nowT nowA avail st = (True, st')"
  shows "h_trips st' = map (\<lambda>trip. if trip_id trip = tripId then merge_trip trip u nowT else trip) (h_trips st)"
  using assms by (auto simp: updateTrip_def Let_def split: prod.splits if_splits)

lemma getTime_Some: "getTime d = Some t \<Longrightarrow> time_value d = t"
  by (cases d) auto

lemma completeTrip_True:
  assumes "completeTrip tripId d rating now nowS nowT nowA avail st = (Inr True, st')"
  shows "\<exists>trip. find (\<lambda>t. trip_id t = tripId) (h_trips st) = Some trip
    \<and> h_trips st' = map (\<lambda>t. if trip_id t = tripId
          then merge_trip t (completion_updates d (Date_object now)
                 (Math_round (of_int (now - time_value (startTime trip)) / 60000)) rating) nowT
          else t) (h_trips st)"
proof (cases "find (\<lambda>t. trip_id t = tripId) (h_trips st)")
  case None
  with assms show ?thesis by (simp add: completeTrip_def)
next
  case (Some trip)
  show ?thesis
  proof (cases "getTime (startTime trip)")
    case None
    with assms Some show ?thesis by (simp add: completeTrip_def)
  next
    case start: (Some start)
    let ?u = "completion_updates d (Date_object now)
        (Math_round (of_int (now - start) / 60000)) rating"
    obtain r st1 where u: "updateTrip tripId ?u nowS nowT nowA avail st = (r, st1)"
      by (cases "updateTrip tripId ?u nowS nowT nowA avail st")
    with assms Some start have r: "r = True" and st': "h_trips st' = h_trips st1"
      by (auto simp: completeTrip_def Let_def split: if_splits)
    from u r have "h_trips st1 =
        map (\<lambda>t. if trip_id t = tripId then merge_trip t ?u nowT else t) (h_trips st)"
      by (simp add: updateTrip_True)
    with Some st' getTime_Some [OF start] show ?thesis by simp
  qed
qed

lemma completeTrip_duration:
  assumes "completeTrip tripId d rating now nowS nowT nowA avail st = (Inr True, st')"
  shows "\<exists>t'. find (\<lambda>t. trip_id t = tripId) (h_trips st') = Some t'
     \<and> status t' = Completed \<and> destination t' = Some d \<and> endTime t' = Some (Date_object now)
     \<and> duration t' = Some (Math_round (of_int (now - time_value (startTime t')) / 60000))"
proof -
  from completeTrip_True [OF assms] obtain trip where
    f: "find (\<lambda>t. trip_id t = tripId) (h_trips st) = Some trip" and
    h: "h_trips st' = map (\<lambda>t. if trip_id t = tripId
          then merge_trip t (completion_updates d (Date_object now)
                 (Math_round (of_int (now - time_value (startTime trip)) / 60000)) rating) nowT
          else t) (h_trips st)"
    by blast
  let ?u = "completion_updates d (Date_object now)
      (Math_round (of_int (now - time_value (startTime trip)) / 60000)) rating"
  let ?f = "\<lambda>t. if trip_id t = tripId then merge_trip t ?u nowT else t"
  have "\<And>x. (trip_id (?f x) = tripId) = (trip_id x = tripId)"
    by (simp add: merge_trip_def completion_updates_def no_updates_def)
  then have "find (\<lambda>t. trip_id t = tripId) (map ?f (h_trips st))
      = map_option ?f (find (\<lambda>t. trip_id t = tripId) (h_trips st))"
    by (rule find_map_same)
  with f h have f': "find (\<lambda>t. trip_id t = tripId) (h_trips st') = Some (?f trip)"
    by simp
  from f have "trip_id trip = tripId"
    by (auto simp: find_Some_iff)
  then have "?f trip = merge_trip trip ?u nowT" by simp
  with f' show ?thesis
    by (simp add: merge_trip_def completion_updates_def no_updates_def)
qed

lemma POST_totalTravelers:
  "POST body suffix now st = (Inr t, st') \<Longrightarrow>
     totalTravelers t = 1 + int (length (accompanyingTravelers t)) \<and> status t = Active"
  by (auto simp: POST_def Let_def split: option.splits)



lemma completeTrip_missing:
  "find (\<lambda>t. trip_id t = tripId) (h_trips st) = None \<Longrightarrow>
     completeTrip tripId d rating now nowS nowT nowA avail st
       = (Inr False, st\<lparr> error := Some ''Trip not found'' \<rparr>)"
  by (simp add: completeTrip_def)

text \<open>
  When the start time of the trip found is a \<open>Date\<close> object, \<open>completeTrip\<close> does what
  the specification says, up to the cached \<open>activeTrip\<close>, which it clears.
\<close>

lemma completeTrip_refines:
  assumes "find (\<lambda>t. trip_id t = tripId) (h_trips st) = Some trip"
    and "startTime trip = Date_object start"
  shows "fst (completeTrip tripId d rating now nowS nowT nowA avail st)
      = Inr (fst (completeTrip_spec tripId d rating now nowS nowT nowA avail st))
   \<and> h_trips (snd (completeTrip tripId d rating now nowS nowT nowA avail st))
      = h_trips (snd (completeTrip_spec tripId d rating now nowS nowT nowA avail st))
   \<and> stored (snd (completeTrip tripId d rating now nowS nowT nowA avail st))
      = stored (snd (completeTrip_spec tripId d rating now nowS nowT nowA avail st))
   \<and> error (snd (completeTrip tripId d rating now nowS nowT nowA avail st))
      = error (snd (completeTrip_spec tripId d rating now nowS nowT nowA avail st))"
proof -
  let ?u = "completion_updates d (Date_object now)
      (Math_round (of_int (now - start) / 60000)) rating"
  obtain r st1 where u: "updateTrip tripId ?u nowS nowT nowA avail st = (r, st1)"
    by (cases "updateTrip tripId ?u nowS nowT nowA avail st")
  from assms u have "completeTrip_spec tripId d rating now nowS nowT nowA avail st = (r, st1)"
    by (simp add: completeTrip_spec_def completion_updates_def)
  moreover from assms u
  have "completeTrip tripId d rating now nowS nowT nowA avail st = (Inr r, st1)
      \<or> completeTrip tripId d rating now nowS nowT nowA avail st
          = (Inr r, st1\<lparr>activeTrip := None\<rparr>)"
    by (simp add: completeTrip_def Let_def)
  ultimately show ?thesis by auto
qed

lemma Math_round_of_int: "Math_round (of_int k) = k"
  unfolding Math_round_def by (rule floor_unique) simp_all

lemma Math_round_0: "Math_round 0 = 0"
  using Math_round_of_int [of 0] by simp

lemma stats_avgDuration_defined: "\<exists>v. stats_avgDuration userId st = Some v"
  by (simp add: stats_avgDuration_def js_divide_def Let_def)

lemma getTripStats_avgDuration_defined: "\<exists>v. getTripStats_avgDuration hst = Some v"
  by (simp add: getTripStats_avgDuration_def js_divide_def Let_def)

lemma stats_avgDuration_zero:
  assumes "\<forall>t \<in> set (trips st). primaryTraveler t = userId \<longrightarrow> \<not> truthy_num (duration t)"
  shows "stats_avgDuration userId st = Some 0"
proof -
  from assms have "filter (\<lambda>t. truthy_num (duration t))
      (filter (\<lambda>trip. primaryTraveler trip = userId) (trips st)) = []"
    by (auto simp: filter_empty_conv)
  then show ?thesis
    by (simp add: stats_avgDuration_def js_divide_def Let_def Math_round_0)
qed

lemma getTripStats_avgDuration_zero:
  assumes "\<forall>t \<in> set (h_trips hst). status t \<noteq> Completed"
  shows "getTripStats_avgDuration hst = Some 0"
proof -
  from assms have "filter (\<lambda>trip. status trip = Completed \<and> truthy_num (duration trip)) (h_trips hst) = []"
    by (auto simp: filter_empty_conv)
  then show ?thesis
    by (simp add: getTripStats_avgDuration_def)
qed

lemma createTrip_while_active:
  assumes "activeTrip hst \<noteq> None"
  shows "fst (createTrip tripData suffix now avail hst) = None
    \<and> h_trips (snd (createTrip tripData suffix now avail hst)) = h_trips hst
    \<and> stored (snd (createTrip tripData suffix now avail hst)) = stored hst"
  using assms by (auto simp: createTrip_def split: option.splits)

lemma generateTripNumber_append:
  "tripNumber t < generateTripNumber (ts @ [t])"
proof -
  have "tripNumber t \<le> Max (set (map tripNumber (ts @ [t])))"
    by (rule Max_ge) auto
  then show ?thesis by (simp add: generateTripNumber_def)
qed

lemma generateTripNumber_cong:
  "map tripNumber ts = map tripNumber ts' \<Longrightarrow> generateTripNumber ts = generateTripNumber ts'"
  by (simp add: generateTripNumber_def)

lemma generateTripNumber_filter_keep:
  assumes "(\<forall>t \<in> set ts. trip_id t \<noteq> tripId)
     \<or> (\<exists>k \<in> set ts. trip_id k \<noteq> tripId \<and> (\<forall>t \<in> set ts. tripNumber t \<le> tripNumber k))"
  shows "generateTripNumber (filter (\<lambda>trip. trip_id trip \<noteq> tripId) ts) = generateTripNumber ts"
  using assms
proof
  assume "\<forall>t \<in> set ts. trip_id t \<noteq> tripId"
  then have "filter (\<lambda>trip. trip_id trip \<noteq> tripId) ts = ts"
    by (simp add: filter_id_conv)
  then show ?thesis by simp
next
  assume "\<exists>k \<in> set ts. trip_id k \<noteq> tripId \<and> (\<forall>t \<in> set ts. tripNumber t \<le> tripNumber k)"
  then obtain k where k: "k \<in> set ts" "trip_id k \<noteq> tripId"
    and le: "\<forall>t \<in> set ts. tripNumber t \<le> tripNumber k"
    by blast
  let ?fs = "filter (\<lambda>trip. trip_id trip \<noteq> tripId) ts"
  from k have kf: "k \<in> set ?fs" by simp
  have "Max (set (map tripNumber ts)) = tripNumber k"
    using k le by (intro Max_eqI) auto
  moreover have "Max (set (map tripNumber ?fs)) = tripNumber k"
    using kf le by (intro Max_eqI) auto
  moreover from k have "ts \<noteq> []" by auto
  moreover from kf have "?fs \<noteq> []" by (metis empty_iff list.set(1))
  ultimately show ?thesis by (simp add: generateTripNumber_def)
qed

lemma createTrip_None:
  "createTrip tripData suffix now avail st = (None, st') \<Longrightarrow> h_trips st' = h_trips st"
  by (auto simp: createTrip_def Let_def split: option.splits prod.splits if_splits)

lemma updateTrip_tripNumbers:
  assumes "u_tripNumber u = None"
  shows "map tripNumber (h_trips (snd (updateTrip tripId u nowS nowT nowA avail st)))
     = map tripNumber (h_trips st)"
  using assms
  by (auto simp: updateTrip_def Let_def merge_trip_def split: prod.splits)

lemma completeTrip_tripNumbers:
  "map tripNumber (h_trips (snd (completeTrip tripId d rating now nowS nowT nowA avail st)))
     = map tripNumber (h_trips st)"
proof (cases "find (\<lambda>t. trip_id t = tripId) (h_trips st)")
  case None
  then show ?thesis by (simp add: completeTrip_def)
next
  case (Some trip)
  show ?thesis
  proof (cases "getTime (startTime trip)")
    case None
    with Some show ?thesis by (simp add: completeTrip_def)
  next
    case start: (Some start)
    let ?u = "completion_updates d (Date_object now)
        (Math_round (of_int (now - start) / of_int (1000 * 60))) rating"
    have "u_tripNumber ?u = None"
      by (simp add: completion_updates_def no_updates_def)
    from updateTrip_tripNumbers [OF this, of tripId nowS nowT nowA avail st]
    show ?thesis using Some start
      by (auto simp: completeTrip_def Let_def split: prod.splits)
  qed
qed

lemma deleteTrip_h_trips:
  "h_trips (snd (deleteTrip tripId avail st)) = h_trips st
   \<or> h_trips (snd (deleteTrip tripId avail st))
       = filter (\<lambda>trip. trip_id trip \<noteq> tripId) (h_trips st)"
  by (auto simp: deleteTrip_def Let_def split: prod.splits)

lemma hook_assigned_numbers_increasing:
  "deletions_keep_largest calls st \<Longrightarrow>
     sorted_wrt (<) (hook_assigned_numbers calls st)
     \<and> (\<forall>n \<in> set (hook_assigned_numbers calls st). generateTripNumber (h_trips st) \<le> n)"
proof (induction calls arbitrary: st)
  case Nil
  then show ?case by simp
next
  case (Cons c calls)
  show ?case
  proof (cases c)
    case (Create tripData suffix now avail)
    show ?thesis
    proof (cases "createTrip tripData suffix now avail st")
      case (Pair r st')
      with Cons.prems Create have keep: "deletions_keep_largest calls st'" by simp
      note IH = Cons.IH [OF keep]
      show ?thesis
      proof (cases r)
        case None
        with Pair have "h_trips st' = h_trips st" by (simp add: createTrip_None)
        with IH Pair None Create show ?thesis by simp
      next
        case (Some tid)
        with Pair obtain t where t: "h_trips st' = h_trips st @ [t]"
          and n: "tripNumber t = generateTripNumber (h_trips st)"
          using createTrip_Some by blast
        from t n have "generateTripNumber (h_trips st) < generateTripNumber (h_trips st')"
          using generateTripNumber_append [of t "h_trips st"] by simp
        with IH Pair Some Create t n show ?thesis by fastforce
      qed
    qed
  next
    case (Complete tripId d rating now nowS nowT nowA avail)
    let ?st' = "snd (completeTrip tripId d rating now nowS nowT nowA avail st)"
    from Cons.prems Complete have keep: "deletions_keep_largest calls ?st'" by simp
    have "generateTripNumber (h_trips ?st') = generateTripNumber (h_trips st)"
      by (rule generateTripNumber_cong) (rule completeTrip_tripNumbers)
    with Cons.IH [OF keep] Complete show ?thesis by simp
  next
    case (Delete_trip tripId avail)
    let ?st' = "snd (deleteTrip tripId avail st)"
    from Cons.prems Delete_trip have keep: "deletions_keep_largest calls ?st'"
      and largest: "(\<forall>t \<in> set (h_trips st). trip_id t \<noteq> tripId)
        \<or> (\<exists>k \<in> set (h_trips st). trip_id k \<noteq> tripId
              \<and> (\<forall>t \<in> set (h_trips st). tripNumber t \<le> tripNumber k))"
      by simp_all
    have "generateTripNumber (h_trips ?st') = generateTripNumber (h_trips st)"
      using deleteTrip_h_trips [of tripId avail st] generateTripNumber_filter_keep [OF largest]
      by auto
    with Cons.IH [OF keep] Delete_trip show ?thesis by simp
  qed
qed

lemma hook_assigned_numbers_first:
  "h_trips st = [] \<Longrightarrow> hook_assigned_numbers calls st \<noteq> [] \<Longrightarrow>
     hd (hook_assigned_numbers calls st) = 1"
proof (induction calls arbitrary: st)
  case Nil
  then show ?case by simp
next
  case (Cons c calls)
  show ?case
  proof (cases c)
    case (Create tripData suffix now avail)
    show ?thesis
    proof (cases "createTrip tripData suffix now avail st")
      case (Pair r st')
      show ?thesis
      proof (cases r)
        case None
        with Pair have "h_trips st' = h_trips st" by (simp add: createTrip_None)
        with Cons Pair None Create show ?thesis by simp
      next
        case (Some tid)
        with Pair obtain t where t: "h_trips st' = h_trips st @ [t]"
          and n: "tripNumber t = generateTripNumber (h_trips st)"
          using createTrip_Some by blast
        with Cons.prems(1) Pair Some Create show ?thesis
          by (simp add: generateTripNumber_def)
      qed
    qed
  next
    case (Complete tripId d rating now nowS nowT nowA avail)
    let ?st' = "snd (completeTrip tripId d rating now nowS nowT nowA avail st)"
    from completeTrip_tripNumbers [of tripId d rating now nowS nowT nowA avail st] Cons.prems(1)
    have "h_trips ?st' = []" by simp
    with Cons Complete show ?thesis by simp
  next
    case (Delete_trip tripId avail)
    let ?st' = "snd (deleteTrip tripId avail st)"
    from deleteTrip_h_trips [of tripId avail st] Cons.prems(1)
    have "h_trips ?st' = []" by auto
    with Cons Delete_trip show ?thesis by simp
  qed
qed

lemma sorted_wrt_upt_map: "sorted_wrt (<) (map (\<lambda>k. c + int k) [0..<n])"
  by (simp add: sorted_wrt_map sorted_wrt_iff_nth_less)

lemma find_update_first:
  "findIndex p xs = Some i \<Longrightarrow> p y \<Longrightarrow> find p (xs[i := y]) = Some y"
proof (induction xs arbitrary: i)
  case Nil
  then show ?case by simp
next
  case (Cons x xs)
  then show ?case
    by (cases "p x") (auto split: if_splits)
qed

lemma Math_round_minutes:
  "60000 * Math_round (of_int g / 60000) - 30000 \<le> g
   \<and> g < 60000 * Math_round (of_int g / 60000) + 30000"
proof -
  let ?x = "of_int g / 60000 + 1 / 2 :: rat"
  have 1: "of_int \<lfloor>?x\<rfloor> \<le> ?x" by (rule of_int_floor_le)
  have 2: "?x < of_int \<lfloor>?x\<rfloor> + 1" by linarith
  from 1 have "60000 * (of_int \<lfloor>?x\<rfloor> :: rat) \<le> of_int g + 30000"
    by (simp add: field_simps)
  then have "(of_int (60000 * \<lfloor>?x\<rfloor>) :: rat) \<le> of_int (g + 30000)"
    by simp
  then have a: "60000 * \<lfloor>?x\<rfloor> \<le> g + 30000"
    by (simp only: of_int_le_iff)
  from 2 have "of_int g + 30000 < 60000 * (of_int \<lfloor>?x\<rfloor> :: rat) + 60000"
    by (simp add: field_simps)
  then have "(of_int (g + 30000) :: rat) < of_int (60000 * \<lfloor>?x\<rfloor> + 60000)"
    by simp
  then have b: "g + 30000 < 60000 * \<lfloor>?x\<rfloor> + 60000"
    by (simp only: of_int_less_iff)
  from a b show ?thesis
    by (simp add: Math_round_def)
qed

lemma json_trip_fields:
  "trip_id (json_trip t) = trip_id t" "status (json_trip t) = status t"
  "duration (json_trip t) = duration t" "tripNumber (json_trip t) = tripNumber t"
  "accompanyingTravelers (json_trip t) = accompanyingTravelers t"
  "totalTravelers (json_trip t) = totalTravelers t"
  by (simp_all add: json_trip_def)

lemma updateTrip_True_stored:
  assumes "updateTrip tripId u nowS nowT nowA avail st = (True, st')"
  shows "\<exists>index. findIndex (\<lambda>trip. trip_id trip = tripId) (stored st) = Some index
     \<and> stored st' =
         map json_trip ((stored st)[index := merge_trip (stored st ! index) u nowS])"
proof -
  obtain ok item where s: "storage_updateTrip avail tripId u nowS (stored st) = (ok, item)"
    by (cases "storage_updateTrip avail tripId u nowS (stored st)")
  with assms have ok: "ok" and st': "stored st' = item"
    by (auto simp: updateTrip_def Let_def split: if_splits)
  from s ok show ?thesis unfolding st'
    by (auto simp: storage_updateTrip_def saveTrips_def getTrips_def Let_def
        split: option.splits if_splits)
qed

lemma PUT_completing_duration:
  assumes "tripId \<noteq> []" and "findIndex (\<lambda>trip. trip_id trip = tripId) (trips st) = Some i"
    and "u_status u = Some Completed" and "u_destination u = Some (Some d)"
    and "u_duration u = None"
  shows "\<exists>t' m. PUT tripId (Some u) now now' st
            = (Inr t', st\<lparr> trips := (trips st)[i := t'] \<rparr>)
     \<and> duration t' = Some m
     \<and> startTime t' = (case u_startTime u of Some s \<Rightarrow> s | None \<Rightarrow> startTime (trips st ! i))
     \<and> (\<forall>e. u_endTime u = Some (Some e) \<longrightarrow>
           60000 * m - 30000 \<le> time_value e - time_value (startTime t')
           \<and> time_value e - time_value (startTime t') < 60000 * m + 30000)
     \<and> (u_endTime u = None \<or> u_endTime u = Some None \<longrightarrow>
           60000 * m - 30000 \<le> now' - time_value (startTime t')
           \<and> now' - time_value (startTime t') < 60000 * m + 30000)"
proof -
  from assms(3-5) have c: "completing u" by (simp add: completing_iff)
  let ?merged = "merge_trip (trips st ! i) u now"
  let ?g = "time_value (endTime_or_now u now') - time_value (startTime ?merged)"
  let ?t' = "?merged\<lparr> duration := Some (Math_round (of_int ?g / 60000)) \<rparr>"
  have put: "PUT tripId (Some u) now now' st
            = (Inr ?t', st\<lparr> trips := (trips st)[i := ?t'] \<rparr>)"
    using PUT_found [OF assms(1,2), of u now now'] c by (simp add: Let_def)
  have start: "startTime ?t'
      = (case u_startTime u of Some s \<Rightarrow> s | None \<Rightarrow> startTime (trips st ! i))"
    by (simp add: merge_trip_def split: option.splits)
  have e1: "\<forall>e. u_endTime u = Some (Some e) \<longrightarrow> ?g = time_value e - time_value (startTime ?t')"
    by (simp add: endTime_or_now_def)
  have e2: "u_endTime u = None \<or> u_endTime u = Some None \<longrightarrow>
      ?g = now' - time_value (startTime ?t')"
    by (auto simp: endTime_or_now_def)
  from put start e1 e2 Math_round_minutes [of ?g] show ?thesis
    by (intro exI [of _ ?t'] exI [of _ "Math_round (of_int ?g / 60000)"]) auto
qed

lemma find_map_json_trip:
  "find (\<lambda>t. trip_id t = tripId) (map json_trip xs)
     = map_option json_trip (find (\<lambda>t. trip_id t = tripId) xs)"
  by (rule find_map_same) (simp add: json_trip_fields)

lemma completeTrip_stored:
  assumes "completeTrip tripId d rating now nowS nowT nowA avail st = (Inr True, st')"
  shows "\<exists>t' s' m. find (\<lambda>t. trip_id t = tripId) (h_trips st') = Some t'
     \<and> find (\<lambda>t. trip_id t = tripId) (stored st') = Some s'
     \<and> status t' = Completed \<and> status s' = Completed
     \<and> duration t' = Some m \<and> duration s' = Some m
     \<and> 60000 * m - 30000 \<le> now - time_value (startTime t')
     \<and> now - time_value (startTime t') < 60000 * m + 30000"
proof -
  from completeTrip_duration [OF assms] obtain t' where
    t': "find (\<lambda>t. trip_id t = tripId) (h_trips st') = Some t'" "status t' = Completed"
      "duration t' = Some (Math_round (of_int (now - time_value (startTime t')) / 60000))"
    by blast
  let ?m = "Math_round (of_int (now - time_value (startTime t')) / 60000)"
  from assms obtain trip start where
    f: "find (\<lambda>t. trip_id t = tripId) (h_trips st) = Some trip"
    and g: "getTime (startTime trip) = Some start"
    by (auto simp: completeTrip_def split: option.splits)
  let ?u = "completion_updates d (Date_object now)
      (Math_round (of_int (now - start) / of_int (1000 * 60))) rating"
  obtain r st1 where u: "updateTrip tripId ?u nowS nowT nowA avail st = (r, st1)"
    by (cases "updateTrip tripId ?u nowS nowT nowA avail st")
  with assms f g have r: "r = True" and st': "stored st' = stored st1"
    by (auto simp: completeTrip_def Let_def split: if_splits)
  from u r updateTrip_True_stored obtain index where
    i: "findIndex (\<lambda>trip. trip_id trip = tripId) (stored st) = Some index"
    and s1: "stored st1 =
         map json_trip ((stored st)[index := merge_trip (stored st ! index) ?u nowS])"
    by blast
  let ?merged = "merge_trip (stored st ! index) ?u nowS"
  from findIndex_Some_less [OF i] have "trip_id (stored st ! index) = tripId"
    by simp
  then have id: "trip_id ?merged = tripId"
    by (simp add: merge_trip_def completion_updates_def no_updates_def)
  from find_update_first [OF i, of ?merged] id
  have "find (\<lambda>t. trip_id t = tripId) ((stored st)[index := ?merged]) = Some ?merged"
    by simp
  with s1 st' have s': "find (\<lambda>t. trip_id t = tripId) (stored st') = Some (json_trip ?merged)"
    by (simp add: find_map_json_trip)
  have same: "Math_round (of_int (now - start) / of_int (1000 * 60)) = ?m"
  proof -
    from completeTrip_True [OF assms] f obtain
      h: "h_trips st' = map (\<lambda>t. if trip_id t = tripId
          then merge_trip t (completion_updates d (Date_object now)
                 (Math_round (of_int (now - time_value (startTime trip)) / 60000)) rating) nowT
          else t) (h_trips st)"
      by auto
    let ?f = "\<lambda>t. if trip_id t = tripId
          then merge_trip t (completion_updates d (Date_object now)
                 (Math_round (of_int (now - time_value (startTime trip)) / 60000)) rating) nowT
          else t"
    have "\<And>x. (trip_id (?f x) = tripId) = (trip_id x = tripId)"
      by (simp add: merge_trip_def completion_updates_def no_updates_def)
    then have "find (\<lambda>t. trip_id t = tripId) (map ?f (h_trips st))
      = map_option ?f (find (\<lambda>t. trip_id t = tripId) (h_trips st))"
      by (rule find_map_same)
    with h f t'(1) have "t' = ?f trip" by simp
    moreover from f have "trip_id trip = tripId" by (auto simp: find_Some_iff)
    ultimately have "startTime t' = startTime trip"
      by (simp add: merge_trip_def completion_updates_def no_updates_def)
    with getTime_Some [OF g] show ?thesis by simp
  qed
  have "status (json_trip ?merged) = Completed"
    "duration (json_trip ?merged) = Some ?m"
    using same by (simp_all add: json_trip_fields merge_trip_def completion_updates_def
        no_updates_def)
  with t' s' Math_round_minutes [of "now - time_value (startTime t')"] show ?thesis
    by blast
qed

lemma PUT_travelers:
  assumes "tripId \<noteq> []" and "findIndex (\<lambda>trip. trip_id trip = tripId) (trips st) = Some i"
  shows "\<exists>t'. PUT tripId (Some u) now now' st = (Inr t', st\<lparr> trips := (trips st)[i := t'] \<rparr>)
     \<and> accompanyingTravelers t' =
          (case u_accompanyingTravelers u of
             Some a \<Rightarrow> a | None \<Rightarrow> accompanyingTravelers (trips st ! i))
     \<and> totalTravelers t' =
          (case u_totalTravelers u of Some n \<Rightarrow> n | None \<Rightarrow> totalTravelers (trips st ! i))"
  using PUT_found [OF assms, of u now now']
  by (auto simp: Let_def merge_trip_def split: option.splits)

lemma updateTrip_travelers:
  assumes "updateTrip tripId u nowS nowT nowA avail hst = (True, hst')"
  shows "map accompanyingTravelers (h_trips hst') =
       map (\<lambda>t. if trip_id t = tripId
                 then (case u_accompanyingTravelers u of
                         Some a \<Rightarrow> a | None \<Rightarrow> accompanyingTravelers t)
                 else accompanyingTravelers t) (h_trips hst)
     \<and> map totalTravelers (h_trips hst') =
       map (\<lambda>t. if trip_id t = tripId
                 then (case u_totalTravelers u of Some n \<Rightarrow> n | None \<Rightarrow> totalTravelers t)
                 else totalTravelers t) (h_trips hst)
     \<and> (\<exists>index. findIndex (\<lambda>trip. trip_id trip = tripId) (stored hst) = Some index
          \<and> map accompanyingTravelers (stored hst') =
              (map accompanyingTravelers (stored hst))
                [index := (case u_accompanyingTravelers u of
                             Some a \<Rightarrow> a
                           | None \<Rightarrow> accompanyingTravelers (stored hst ! index))]
          \<and> map totalTravelers (stored hst') =
              (map totalTravelers (stored hst))
                [index := (case u_totalTravelers u of
                             Some n \<Rightarrow> n | None \<Rightarrow> totalTravelers (stored hst ! index))])"
proof -
  from updateTrip_True [OF assms]
  have h: "h_trips hst' =
      map (\<lambda>trip. if trip_id trip = tripId then merge_trip trip u nowT else trip) (h_trips hst)"
    .
  from updateTrip_True_stored [OF assms] obtain index where
    i: "findIndex (\<lambda>trip. trip_id trip = tripId) (stored hst) = Some index"
    and s: "stored hst' =
         map json_trip ((stored hst)[index := merge_trip (stored hst ! index) u nowS])"
    by blast
  have a: "map accompanyingTravelers (h_trips hst') =
       map (\<lambda>t. if trip_id t = tripId
                 then (case u_accompanyingTravelers u of
                         Some a \<Rightarrow> a | None \<Rightarrow> accompanyingTravelers t)
                 else accompanyingTravelers t) (h_trips hst)"
    unfolding h by (auto simp: merge_trip_def split: option.splits)
  have b: "map totalTravelers (h_trips hst') =
       map (\<lambda>t. if trip_id t = tripId
                 then (case u_totalTravelers u of Some n \<Rightarrow> n | None \<Rightarrow> totalTravelers t)
                 else totalTravelers t) (h_trips hst)"
    unfolding h by (auto simp: merge_trip_def split: option.splits)
  have c: "map accompanyingTravelers (stored hst') =
              (map accompanyingTravelers (stored hst))
                [index := (case u_accompanyingTravelers u of
                             Some a \<Rightarrow> a
                           | None \<Rightarrow> accompanyingTravelers (stored hst ! index))]"
    unfolding s
    by (simp add: json_trip_fields comp_def map_update merge_trip_def split: option.splits)
  have d: "map totalTravelers (stored hst') =
              (map totalTravelers (stored hst))
                [index := (case u_totalTravelers u of
                             Some n \<Rightarrow> n | None \<Rightarrow> totalTravelers (stored hst ! index))]"
    unfolding s
    by (simp add: json_trip_fields comp_def map_update merge_trip_def split: option.splits)
  from a b c d i show ?thesis by blast
qed

lemma createTrip_after_load:
  assumes "\<exists>t \<in> set (h_trips (loadTrips avail hst)). status t = Active"
  shows "fst (createTrip tripData suffix now avail' (loadTrips avail hst)) = None
    \<and> h_trips (snd (createTrip tripData suffix now avail' (loadTrips avail hst)))
        = h_trips (loadTrips avail hst)
    \<and> stored (snd (createTrip tripData suffix now avail' (loadTrips avail hst))) = stored hst"
proof -
  from assms have "find (\<lambda>trip. status trip = Active) (getTrips avail (stored hst)) \<noteq> None"
    by (auto simp: loadTrips_def Let_def find_None_iff)
  then have "activeTrip (loadTrips avail hst) \<noteq> None"
    by (simp add: loadTrips_def Let_def)
  from createTrip_while_active [OF this, of tripData suffix now avail'] show ?thesis
    by (simp add: loadTrips_def Let_def)
qed

section \<open>The claims\<close>

text \<open>
  C1 (as amended). On the trips route, a \<open>POST\<close> made while a trip of \<open>current_user\<close>
  is active fails with status 400, and with the conflict error when the body has its
  required fields, and changes nothing; and for every owner, a sequence of \<open>POST\<close>,
  \<open>DELETE\<close> and \<open>PUT\<close> requests in which no \<open>PUT\<close> payload has \<open>status: 'active'\<close> or
  the key \<open>primaryTraveler\<close> keeps the number of active trips of the owner at most 1.
  The hook's \<open>createTrip\<close> fails, storing nothing, while the hook's \<open>activeTrip\<close> is
  set, as it is right after a load that found an active trip.
\<close>

theorem C1_single_active_trip:
  "((\<exists>t \<in> set (trips st). primaryTraveler t = ''current_user'' \<and> status t = Active) \<longrightarrow>
      (\<exists>e. POST body suffix now st = (Inl e, st) \<and> http_status e = 400
         \<and> (b_origin body \<noteq> None \<and> b_mode body \<noteq> None \<and> b_purpose body \<noteq> None
              \<longrightarrow> e = Active_trip_exists)))
   \<and> ((\<forall>r \<in> set reqs. no_reactivation r) \<and> active_count owner st \<le> 1
        \<longrightarrow> active_count owner (run reqs st) \<le> 1)
   \<and> (activeTrip hst \<noteq> None \<longrightarrow>
        fst (createTrip tripData suffix' now' avail hst) = None
        \<and> h_trips (snd (createTrip tripData suffix' now' avail hst)) = h_trips hst
        \<and> stored (snd (createTrip tripData suffix' now' avail hst)) = stored hst)
   \<and> ((\<exists>t \<in> set (h_trips (loadTrips avail' hst)). status t = Active) \<longrightarrow>
        fst (createTrip tripData suffix' now' avail (loadTrips avail' hst)) = None
        \<and> h_trips (snd (createTrip tripData suffix' now' avail (loadTrips avail' hst)))
            = h_trips (loadTrips avail' hst)
        \<and> stored (snd (createTrip tripData suffix' now' avail (loadTrips avail' hst)))
            = stored hst)"
  using POST_while_active [of st body suffix now] active_count_run [of reqs owner st]
    createTrip_while_active [of hst tripData suffix' now' avail]
    createTrip_after_load [of avail' hst tripData suffix' now' avail]
  by simp

theorem C1_single_active_trip_witness:
  "(\<exists>t \<in> set (trips route_one_trip).
       primaryTraveler t = ''current_user'' \<and> status t = Active)
   \<and> POST work_by_car ''2'' 10 route_one_trip = (Inl Active_trip_exists, route_one_trip)
   \<and> list_all no_reactivation
        [Post work_by_car ''2'' 10,
         Put ''trip_1'' (Some (no_updates\<lparr>u_status := Some Completed\<rparr>)) 20 20,
         Post work_by_car ''3'' 30, Delete ''trip_1'']
   \<and> active_count ''current_user'' route_one_trip \<le> 1
   \<and> active_count ''current_user''
       (run [Post work_by_car ''2'' 10,
             Put ''trip_1'' (Some (no_updates\<lparr>u_status := Some Completed\<rparr>)) 20 20,
             Post work_by_car ''3'' 30, Delete ''trip_1'']
          route_one_trip) = 1
   \<and> activeTrip hook_one_trip \<noteq> None
   \<and> fst (createTrip work_by_car_form ''2'' 10 True hook_one_trip) = None
   \<and> (\<exists>t \<in> set (h_trips (loadTrips True hook_one_trip)). status t = Active)
   \<and> fst (createTrip work_by_car_form ''2'' 10 True (loadTrips True hook_one_trip)) = None"
  using C1_single_active_trip [of route_one_trip work_by_car "''2''" 10
      "[Post work_by_car ''2'' 10,
        Put ''trip_1'' (Some (no_updates\<lparr>u_status := Some Completed\<rparr>)) 20 20,
        Post work_by_car ''3'' 30, Delete ''trip_1'']" "''current_user''" hook_one_trip
      work_by_car_form "''2''" 10 True True]
  by (simp add: route_one_trip_def run_def POST_def PUT_def DELETE_def active_count_def
      initial_route_state_def work_by_car_def no_updates_def merge_trip_def completing_def
      splice1_def Let_def hook_one_trip_def createTrip_def loadTrips_def
      initial_hook_state_def work_by_car_form_def generateTripNumber_def addTrip_def
      saveTrips_def getTrips_def json_trip_def)

text \<open>
  C1 as stated fails, on the route and in the hook. On the route, after a first trip
  is completed and a second one created, a \<open>PUT\<close> with \<open>status: 'active'\<close> on the first
  leaves two active trips of the owner. In the hook, a load that finds the storage
  unavailable empties the list and \<open>activeTrip\<close>; with the storage working again,
  \<open>createTrip\<close> succeeds although the stored trip is active, and the storage holds two
  active trips.
\<close>

theorem C1_two_active_trips:
  "active_count ''current_user''
     (run [Post work_by_car ''1'' 0,
           Put ''trip_1'' (Some (no_updates\<lparr>u_status := Some Completed\<rparr>)) 5 5,
           Post work_by_car ''2'' 10,
           Put ''trip_1'' (Some (no_updates\<lparr>u_status := Some Active\<rparr>)) 20 20]
        initial_route_state) = 2
   \<and> map status (stored hook_one_trip) = [Active]
   \<and> fst (createTrip work_by_car_form ''2'' 10 True (loadTrips False hook_one_trip))
       = Some ''trip_2''
   \<and> map status (stored (snd
        (createTrip work_by_car_form ''2'' 10 True (loadTrips False hook_one_trip))))
       = [Active, Active]"
  by (simp add: run_def POST_def PUT_def active_count_def initial_route_state_def
      work_by_car_def no_updates_def merge_trip_def completing_def Let_def
      hook_one_trip_def createTrip_def loadTrips_def initial_hook_state_def
      work_by_car_form_def generateTripNumber_def addTrip_def saveTrips_def getTrips_def
      json_trip_def)

text \<open>
  C2 (as amended). On the route, the trip numbers that the successful \<open>POST\<close>s of any
  sequence of requests assign are strictly increasing, without repeats, whatever is
  deleted in between, and start at 1 from the initial state. In the hook, the numbers
  that successful \<open>createTrip\<close> calls assign are strictly increasing, without repeats,
  for every sequence of \<open>createTrip\<close>, \<open>completeTrip\<close> and \<open>deleteTrip\<close> calls in which
  each \<open>deleteTrip\<close> leaves the largest trip number in the list, and start at 1 from
  an empty list.
\<close>

theorem C2_trip_numbers_increase:
  "sorted_wrt (<) (assigned_numbers reqs st)
   \<and> distinct (assigned_numbers reqs st)
   \<and> (assigned_numbers reqs initial_route_state \<noteq> []
        \<longrightarrow> hd (assigned_numbers reqs initial_route_state) = 1)
   \<and> (deletions_keep_largest calls hst \<longrightarrow>
        sorted_wrt (<) (hook_assigned_numbers calls hst)
        \<and> distinct (hook_assigned_numbers calls hst)
        \<and> (h_trips hst = [] \<and> hook_assigned_numbers calls hst \<noteq> []
             \<longrightarrow> hd (hook_assigned_numbers calls hst) = 1))"
proof -
  let ?r = "assigned_numbers reqs initial_route_state"
  let ?h = "hook_assigned_numbers calls hst"
  have r1: "sorted_wrt (<) (assigned_numbers reqs st)"
    by (subst assigned_numbers_counter) (rule sorted_wrt_upt_map)
  then have r2: "distinct (assigned_numbers reqs st)"
    by (simp add: strict_sorted_iff)
  have r: "?r = map (\<lambda>k. 1 + int k) [0..<length ?r]"
    using assigned_numbers_counter [of reqs initial_route_state]
    by (simp add: initial_route_state_def)
  have r3: "?r \<noteq> [] \<longrightarrow> hd ?r = 1"
  proof
    assume ne: "?r \<noteq> []"
    then have "0 < length ?r" by simp
    have "hd ?r = ?r ! 0" using ne by (simp add: hd_conv_nth)
    also have "\<dots> = map (\<lambda>k. 1 + int k) [0..<length ?r] ! 0" using r by simp
    also have "\<dots> = 1" using \<open>0 < length ?r\<close> by (simp del: upt_Suc)
    finally show "hd ?r = 1" .
  qed
  have h: "sorted_wrt (<) ?h \<and> distinct ?h \<and> (h_trips hst = [] \<and> ?h \<noteq> [] \<longrightarrow> hd ?h = 1)"
    if "deletions_keep_largest calls hst"
  proof -
    from hook_assigned_numbers_increasing [OF that] have s: "sorted_wrt (<) ?h" by blast
    from s have "distinct ?h" by (simp add: strict_sorted_iff)
    moreover have "h_trips hst = [] \<and> ?h \<noteq> [] \<longrightarrow> hd ?h = 1"
      using hook_assigned_numbers_first [of hst calls] by simp
    ultimately show ?thesis using s by blast
  qed
  from r1 r2 r3 h show ?thesis by blast
qed

theorem C2_trip_numbers_increase_witness:
  "assigned_numbers [Post work_by_car ''1'' 0, Delete ''trip_1'', Post work_by_car ''2'' 10]
      initial_route_state = [1, 2]
   \<and> deletions_keep_largest three_trips initial_hook_state
   \<and> h_trips initial_hook_state = []
   \<and> hook_assigned_numbers three_trips initial_hook_state = [1, 2, 3]"
  using C2_trip_numbers_increase
    [of "[Post work_by_car ''1'' 0, Delete ''trip_1'', Post work_by_car ''2'' 10]"
      initial_route_state three_trips initial_hook_state]
  by (simp add: run_def POST_def DELETE_def initial_route_state_def work_by_car_def
      splice1_def Let_def three_trips_def createTrip_def completeTrip_def updateTrip_def
      deleteTrip_def completion_updates_def storage_updateTrip_def storage_deleteTrip_def
      initial_hook_state_def work_by_car_form_def generateTripNumber_def addTrip_def
      saveTrips_def getTrips_def json_trip_def json_location_def kochi_def no_updates_def
      merge_trip_def)

text \<open>
  C2 as stated fails in the hook: with working storage, a first trip gets the number 1,
  \<open>deleteTrip\<close> removes it, the trip that held the largest number, and the next trip
  gets the number 1 again.
\<close>

theorem C2_hook_reuses_number:
  "map tripNumber (h_trips hook_one_trip) = [1]
   \<and> h_trips (snd (deleteTrip ''trip_1'' True hook_one_trip)) = []
   \<and> map tripNumber (h_trips (snd (createTrip work_by_car_form ''2'' 20 True
         (snd (deleteTrip ''trip_1'' True hook_one_trip))))) = [1]
   \<and> hook_assigned_numbers
        [Create work_by_car_form ''1'' 0 True, Delete_trip ''trip_1'' True,
         Create work_by_car_form ''2'' 20 True]
        initial_hook_state = [1, 1]"
  by (simp add: hook_one_trip_def createTrip_def deleteTrip_def initial_hook_state_def
      work_by_car_form_def generateTripNumber_def addTrip_def saveTrips_def getTrips_def
      storage_deleteTrip_def Let_def)

text \<open>
  C3 (as amended). A successful \<open>createTrip\<close> of the hook appends a trip whose number
  is the maximum number of the hook's trips plus 1, or 1 when there are none. A successful
  \<open>POST\<close> of the route assigns the value of \<open>tripIdCounter\<close> and increments it, whatever
  trips exist: from the initial state, the successful \<open>POST\<close>s of any sequence of
  requests get the numbers 1, 2, 3, ... in order.
\<close>

theorem C3_trip_number_assignment:
  "(createTrip tripData suffix now avail hst = (Some tid, hst') \<longrightarrow>
      (\<exists>t. h_trips hst' = h_trips hst @ [t]
         \<and> tripNumber t =
             (if h_trips hst = [] then 1
              else Max (set (map tripNumber (h_trips hst))) + 1)))
   \<and> (POST body suffix' now' st = (Inr t', st') \<longrightarrow>
        tripNumber t' = tripIdCounter st \<and> tripIdCounter st' = tripIdCounter st + 1)
   \<and> assigned_numbers reqs initial_route_state =
        map (\<lambda>k. 1 + int k) [0..<length (assigned_numbers reqs initial_route_state)]"
proof -
  have "createTrip tripData suffix now avail hst = (Some tid, hst') \<longrightarrow>
      (\<exists>t. h_trips hst' = h_trips hst @ [t]
         \<and> tripNumber t =
             (if h_trips hst = [] then 1
              else Max (set (map tripNumber (h_trips hst))) + 1))"
    using createTrip_Some [of tripData suffix now avail hst tid hst']
    by (auto simp: generateTripNumber_max)
  moreover have "POST body suffix' now' st = (Inr t', st') \<longrightarrow>
        tripNumber t' = tripIdCounter st \<and> tripIdCounter st' = tripIdCounter st + 1"
    using POST_Inr [of body suffix' now' st t' st'] by simp
  moreover have "assigned_numbers reqs initial_route_state =
        map (\<lambda>k. 1 + int k) [0..<length (assigned_numbers reqs initial_route_state)]"
    using assigned_numbers_counter [of reqs initial_route_state]
    by (simp add: initial_route_state_def)
  ultimately show ?thesis by blast
qed

theorem C3_trip_number_assignment_witness:
  "createTrip work_by_car_form ''2'' 50 True
      (snd (completeTrip ''trip_1'' kochi None 10 10 10 10 True hook_one_trip))
    = (Some ''trip_2'', snd (createTrip work_by_car_form ''2'' 50 True
        (snd (completeTrip ''trip_1'' kochi None 10 10 10 10 True hook_one_trip))))
   \<and> map tripNumber (h_trips (snd (createTrip work_by_car_form ''2'' 50 True
        (snd (completeTrip ''trip_1'' kochi None 10 10 10 10 True hook_one_trip))))) = [1, 2]
   \<and> POST work_by_car ''1'' 0 initial_route_state
       = (Inr (hd (trips route_one_trip)), route_one_trip)
   \<and> tripNumber (hd (trips route_one_trip)) = 1
   \<and> tripIdCounter route_one_trip = 2"
  using C3_trip_number_assignment [of work_by_car_form "''2''" 50 True
      "snd (completeTrip ''trip_1'' kochi None 10 10 10 10 True hook_one_trip)"
      "''trip_2''"
      "snd (createTrip work_by_car_form ''2'' 50 True
        (snd (completeTrip ''trip_1'' kochi None 10 10 10 10 True hook_one_trip)))"
      work_by_car "''1''" 0 initial_route_state
      "hd (trips route_one_trip)" route_one_trip "[]"]
  by (simp add: run_def POST_def initial_route_state_def work_by_car_def
      no_updates_def merge_trip_def Let_def route_one_trip_def
      hook_one_trip_def createTrip_def completeTrip_def updateTrip_def
      completion_updates_def storage_updateTrip_def initial_hook_state_def
      work_by_car_form_def generateTripNumber_def addTrip_def saveTrips_def getTrips_def
      json_trip_def json_location_def kochi_def)

text \<open>
  C3 as stated fails on the route: after the only trip, number 1, is deleted, no trip
  exists, and the next \<open>POST\<close> assigns 2, not 1.
\<close>

theorem C3_route_counter_after_delete:
  "trips (run [Post work_by_car ''1'' 0, Delete ''trip_1''] initial_route_state) = []
   \<and> assigned_numbers
        [Post work_by_car ''1'' 0, Delete ''trip_1'', Post work_by_car ''2'' 10]
        initial_route_state = [1, 2]"
  by (simp add: run_def POST_def DELETE_def initial_route_state_def work_by_car_def
      splice1_def Let_def)

text \<open>
  C4. A \<open>PUT\<close> on an existing trip whose payload has \<open>status: 'completed'\<close>, a
  destination and no duration stores a duration \<open>m\<close>, in minutes: the gap in
  milliseconds from the start time of the merged trip (the payload's, or else the
  stored one) to the end time, divided by 60000 and rounded to the nearest integer, a
  half rounded up, that is \<open>60000 m - 30000 \<le> gap < 60000 m + 30000\<close>. The end time
  is the payload's \<open>endTime\<close> when it has one, and the reading of the clock otherwise.
  A successful \<open>completeTrip\<close> of the hook leaves the trip completed, in the hook's list
  and in storage, with the duration that stands in the same relation to the gap from
  the start time to the hook's reading of the clock.
\<close>

theorem C4_duration_computation:
  "(tripId \<noteq> [] \<and> findIndex (\<lambda>trip. trip_id trip = tripId) (trips st) = Some i
      \<and> u_status u = Some Completed \<and> u_destination u = Some (Some d) \<and> u_duration u = None
     \<longrightarrow> (\<exists>t' m. PUT tripId (Some u) now now' st
                  = (Inr t', st\<lparr> trips := (trips st)[i := t'] \<rparr>)
           \<and> duration t' = Some m
           \<and> startTime t' =
               (case u_startTime u of Some s \<Rightarrow> s | None \<Rightarrow> startTime (trips st ! i))
           \<and> (\<forall>e. u_endTime u = Some (Some e) \<longrightarrow>
                 60000 * m - 30000 \<le> time_value e - time_value (startTime t')
                 \<and> time_value e - time_value (startTime t') < 60000 * m + 30000)
           \<and> (u_endTime u = None \<or> u_endTime u = Some None \<longrightarrow>
                 60000 * m - 30000 \<le> now' - time_value (startTime t')
                 \<and> now' - time_value (startTime t') < 60000 * m + 30000)))
   \<and> (completeTrip tripId' d' rating nowE nowS nowT nowA avail hst = (Inr True, hst')
        \<longrightarrow> (\<exists>t' s' m. find (\<lambda>t. trip_id t = tripId') (h_trips hst') = Some t'
              \<and> find (\<lambda>t. trip_id t = tripId') (stored hst') = Some s'
              \<and> status t' = Completed \<and> status s' = Completed
              \<and> duration t' = Some m \<and> duration s' = Some m
              \<and> 60000 * m - 30000 \<le> nowE - time_value (startTime t')
              \<and> nowE - time_value (startTime t') < 60000 * m + 30000))"
  using PUT_completing_duration [of tripId st i u d now now']
    completeTrip_stored [of tripId' d' rating nowE nowS nowT nowA avail hst hst']
  by blast

theorem C4_duration_computation_witness:
  "''trip_1'' \<noteq> []
   \<and> findIndex (\<lambda>trip. trip_id trip = ''trip_1'') (trips route_one_trip) = Some 0
   \<and> map startTime (trips route_one_trip) = [Date_object 0]
   \<and> u_status complete_at_450000 = Some Completed
   \<and> u_destination complete_at_450000 = Some (Some (json_location kochi))
   \<and> u_duration complete_at_450000 = None
   \<and> u_endTime complete_at_450000 = Some (Some (Date_string 450000))
   \<and> map duration
        (trips (snd (PUT ''trip_1'' (Some complete_at_450000) 460000 900000 route_one_trip)))
       = [Some 8]
   \<and> u_status complete_without_endTime = Some Completed
   \<and> u_destination complete_without_endTime = Some (Some (json_location kochi))
   \<and> u_duration complete_without_endTime = None
   \<and> u_endTime complete_without_endTime = None
   \<and> map duration
        (trips (snd (PUT ''trip_1'' (Some complete_without_endTime) 430000 440000
                       route_one_trip)))
       = [Some 7]
   \<and> fst (completeTrip ''trip_1'' kochi (Some 5) 450000 450001 450002 450003 True hook_one_trip)
       = Inr True
   \<and> map duration (h_trips (snd
         (completeTrip ''trip_1'' kochi (Some 5) 450000 450001 450002 450003 True hook_one_trip)))
       = [Some 8]
   \<and> map duration (stored (snd
         (completeTrip ''trip_1'' kochi (Some 5) 450000 450001 450002 450003 True hook_one_trip)))
       = [Some 8]"
  using C4_duration_computation [of "''trip_1''" route_one_trip 0 complete_at_450000
      "json_location kochi" 460000 900000 "''trip_1''" kochi "Some 5" 450000 450001 450002
      450003 True hook_one_trip
      "snd (completeTrip ''trip_1'' kochi (Some 5) 450000 450001 450002 450003 True hook_one_trip)"]
    C4_duration_computation [of "''trip_1''" route_one_trip 0 complete_without_endTime
      "json_location kochi" 430000 440000 "''trip_1''" kochi "Some 5" 450000 450001 450002
      450003 True hook_one_trip
      "snd (completeTrip ''trip_1'' kochi (Some 5) 450000 450001 450002 450003 True hook_one_trip)"]
  by (simp add: run_def POST_def PUT_def initial_route_state_def work_by_car_def
      no_updates_def merge_trip_def completing_def endTime_or_now_def Let_def
      route_one_trip_def complete_at_450000_def complete_without_endTime_def
      Math_round_def floor_eq_iff
      hook_one_trip_def createTrip_def completeTrip_def updateTrip_def
      completion_updates_def storage_updateTrip_def initial_hook_state_def
      work_by_car_form_def generateTripNumber_def addTrip_def saveTrips_def getTrips_def
      json_trip_def json_location_def kochi_def)

text \<open>
  C5 (as amended). Immediately after a successful creation, by \<open>POST\<close> or by the hook's
  \<open>createTrip\<close>, \<open>totalTravelers\<close> is 1 plus the number of accompanying travelers. An
  update recomputes nothing: \<open>accompanyingTravelers\<close> and \<open>totalTravelers\<close> each take the
  payload's value when the payload has the key and keep the stored value otherwise, in
  the route's \<open>PUT\<close> and in the hook's \<open>updateTrip\<close> (for the trips of that id in its
  list and for the first one in storage). So for a trip on which the equality held, a
  \<open>PUT\<close> without the key \<open>totalTravelers\<close> keeps the equality exactly when the list of
  accompanying travelers has after it as many entries as before.
\<close>

theorem C5_totalTravelers:
  "(POST body suffix now st0 = (Inr t, st0')
      \<longrightarrow> totalTravelers t = 1 + int (length (accompanyingTravelers t)))
   \<and> (createTrip tripData suffix' now2 avail hst = (Some tid, hst')
      \<longrightarrow> (\<exists>t. h_trips hst' = h_trips hst @ [t]
            \<and> totalTravelers t = 1 + int (length (accompanyingTravelers t))))
   \<and> (tripId \<noteq> [] \<and> findIndex (\<lambda>trip. trip_id trip = tripId) (trips st) = Some i
      \<longrightarrow> (\<exists>t'. PUT tripId (Some u) now3 now4 st
                   = (Inr t', st\<lparr> trips := (trips st)[i := t'] \<rparr>)
            \<and> accompanyingTravelers t' =
                 (case u_accompanyingTravelers u of
                    Some a \<Rightarrow> a | None \<Rightarrow> accompanyingTravelers (trips st ! i))
            \<and> totalTravelers t' =
                 (case u_totalTravelers u of
                    Some n \<Rightarrow> n | None \<Rightarrow> totalTravelers (trips st ! i))
            \<and> (u_totalTravelers u = None
                 \<and> totalTravelers (trips st ! i)
                     = 1 + int (length (accompanyingTravelers (trips st ! i)))
                \<longrightarrow> (totalTravelers t' = 1 + int (length (accompanyingTravelers t')))
                    = (length (accompanyingTravelers t')
                        = length (accompanyingTravelers (trips st ! i))))))
   \<and> (updateTrip tripId' u' nowS nowT nowA avail' hst2 = (True, hst2')
      \<longrightarrow> map accompanyingTravelers (h_trips hst2') =
            map (\<lambda>t. if trip_id t = tripId'
                      then (case u_accompanyingTravelers u' of
                              Some a \<Rightarrow> a | None \<Rightarrow> accompanyingTravelers t)
                      else accompanyingTravelers t) (h_trips hst2)
          \<and> map totalTravelers (h_trips hst2') =
            map (\<lambda>t. if trip_id t = tripId'
                      then (case u_totalTravelers u' of
                              Some n \<Rightarrow> n | None \<Rightarrow> totalTravelers t)
                      else totalTravelers t) (h_trips hst2)
          \<and> (\<exists>index. findIndex (\<lambda>trip. trip_id trip = tripId') (stored hst2) = Some index
               \<and> map accompanyingTravelers (stored hst2') =
                   (map accompanyingTravelers (stored hst2))
                     [index := (case u_accompanyingTravelers u' of
                                  Some a \<Rightarrow> a
                                | None \<Rightarrow> accompanyingTravelers (stored hst2 ! index))]
               \<and> map totalTravelers (stored hst2') =
                   (map totalTravelers (stored hst2))
                     [index := (case u_totalTravelers u' of
                                  Some n \<Rightarrow> n
                                | None \<Rightarrow> totalTravelers (stored hst2 ! index))]))"
proof -
  have put: "\<exists>t'. PUT tripId (Some u) now3 now4 st
                   = (Inr t', st\<lparr> trips := (trips st)[i := t'] \<rparr>)
            \<and> accompanyingTravelers t' =
                 (case u_accompanyingTravelers u of
                    Some a \<Rightarrow> a | None \<Rightarrow> accompanyingTravelers (trips st ! i))
            \<and> totalTravelers t' =
                 (case u_totalTravelers u of
                    Some n \<Rightarrow> n | None \<Rightarrow> totalTravelers (trips st ! i))
            \<and> (u_totalTravelers u = None
                 \<and> totalTravelers (trips st ! i)
                     = 1 + int (length (accompanyingTravelers (trips st ! i)))
                \<longrightarrow> (totalTravelers t' = 1 + int (length (accompanyingTravelers t')))
                    = (length (accompanyingTravelers t')
                        = length (accompanyingTravelers (trips st ! i))))"
    if "tripId \<noteq> []" and "findIndex (\<lambda>trip. trip_id trip = tripId) (trips st) = Some i"
  proof -
    from PUT_travelers [OF that, of u now3 now4] obtain t' where
      t': "PUT tripId (Some u) now3 now4 st = (Inr t', st\<lparr> trips := (trips st)[i := t'] \<rparr>)"
        "accompanyingTravelers t' =
           (case u_accompanyingTravelers u of
              Some a \<Rightarrow> a | None \<Rightarrow> accompanyingTravelers (trips st ! i))"
        "totalTravelers t' =
           (case u_totalTravelers u of Some n \<Rightarrow> n | None \<Rightarrow> totalTravelers (trips st ! i))"
      by blast
    have eq: "u_totalTravelers u = None
        \<and> totalTravelers (trips st ! i)
               = 1 + int (length (accompanyingTravelers (trips st ! i)))
       \<longrightarrow> (totalTravelers t' = 1 + int (length (accompanyingTravelers t')))
         = (length (accompanyingTravelers t') = length (accompanyingTravelers (trips st ! i)))"
      using t'(3) by auto
    show ?thesis
      by (rule exI [of _ t']) (use t' eq in blast)
  qed
  have create: "\<exists>t. h_trips hst' = h_trips hst @ [t]
            \<and> totalTravelers t = 1 + int (length (accompanyingTravelers t))"
    if "createTrip tripData suffix' now2 avail hst = (Some tid, hst')"
    using createTrip_Some [OF that] by blast
  from put create POST_totalTravelers [of body suffix now st0 t st0']
    updateTrip_travelers [of tripId' u' nowS nowT nowA avail' hst2 hst2']
  show ?thesis by blast
qed

theorem C5_totalTravelers_witness:
  "POST (work_by_car\<lparr> b_accompanyingTravelers := Some [''traveler_1''] \<rparr>) ''1'' 0
      initial_route_state
     = (Inr (hd (trips route_trip_with_companion)), route_trip_with_companion)
   \<and> map totalTravelers (trips route_trip_with_companion) = [2]
   \<and> map accompanyingTravelers (trips route_trip_with_companion) = [[''traveler_1'']]
   \<and> map totalTravelers
      (h_trips (snd (createTrip
         (work_by_car_form\<lparr>f_accompanyingTravelers := [''traveler_1'', ''traveler_2'']\<rparr>)
         ''1'' 0 True initial_hook_state))) = [3]
   \<and> ''trip_1'' \<noteq> []
   \<and> findIndex (\<lambda>trip. trip_id trip = ''trip_1'') (trips route_trip_with_companion) = Some 0
   \<and> map accompanyingTravelers
      (trips (snd (PUT ''trip_1''
          (Some (no_updates\<lparr>u_accompanyingTravelers := Some [''traveler_2'']\<rparr>)) 5 5
          route_trip_with_companion))) = [[''traveler_2'']]
   \<and> map totalTravelers
      (trips (snd (PUT ''trip_1''
          (Some (no_updates\<lparr>u_accompanyingTravelers := Some [''traveler_2'']\<rparr>)) 5 5
          route_trip_with_companion))) = [2]
   \<and> fst (updateTrip ''trip_1''
          (no_updates\<lparr>u_accompanyingTravelers := Some [''traveler_1'', ''traveler_2'']\<rparr>)
          5 6 7 True hook_one_trip)
   \<and> map accompanyingTravelers (h_trips (snd (updateTrip ''trip_1''
          (no_updates\<lparr>u_accompanyingTravelers := Some [''traveler_1'', ''traveler_2'']\<rparr>)
          5 6 7 True hook_one_trip))) = [[''traveler_1'', ''traveler_2'']]
   \<and> map totalTravelers (h_trips (snd (updateTrip ''trip_1''
          (no_updates\<lparr>u_accompanyingTravelers := Some [''traveler_1'', ''traveler_2'']\<rparr>)
          5 6 7 True hook_one_trip))) = [1]
   \<and> map accompanyingTravelers (stored (snd (updateTrip ''trip_1''
          (no_updates\<lparr>u_accompanyingTravelers := Some [''traveler_1'', ''traveler_2'']\<rparr>)
          5 6 7 True hook_one_trip))) = [[''traveler_1'', ''traveler_2'']]
   \<and> map totalTravelers (stored (snd (updateTrip ''trip_1''
          (no_updates\<lparr>u_accompanyingTravelers := Some [''traveler_1'', ''traveler_2'']\<rparr>)
          5 6 7 True hook_one_trip))) = [1]"
  using C5_totalTravelers
    [where body = "work_by_car\<lparr> b_accompanyingTravelers := Some [''traveler_1''] \<rparr>"
       and suffix = "''1''" and now = 0 and ?st0.0 = initial_route_state
       and t = "hd (trips route_trip_with_companion)" and ?st0' = route_trip_with_companion
       and tripData =
         "work_by_car_form\<lparr>f_accompanyingTravelers := [''traveler_1'', ''traveler_2'']\<rparr>"
       and suffix' = "''1''" and ?now2.0 = 0 and avail = True and hst = initial_hook_state
       and tid = "''trip_1''"
       and hst' = "snd (createTrip
         (work_by_car_form\<lparr>f_accompanyingTravelers := [''traveler_1'', ''traveler_2'']\<rparr>)
         ''1'' 0 True initial_hook_state)"
       and tripId = "''trip_1''" and st = route_trip_with_companion and i = 0
       and u = "no_updates\<lparr>u_accompanyingTravelers := Some [''traveler_2'']\<rparr>"
       and ?now3.0 = 5 and ?now4.0 = 5
       and tripId' = "''trip_1''"
       and u' = "no_updates\<lparr>u_accompanyingTravelers := Some [''traveler_1'', ''traveler_2'']\<rparr>"
       and nowS = 5 and nowT = 6 and nowA = 7 and avail' = True and ?hst2.0 = hook_one_trip
       and ?hst2' = "snd (updateTrip ''trip_1''
          (no_updates\<lparr>u_accompanyingTravelers := Some [''traveler_1'', ''traveler_2'']\<rparr>)
          5 6 7 True hook_one_trip)"]
  by (simp add: run_def POST_def PUT_def initial_route_state_def work_by_car_def
      no_updates_def merge_trip_def completing_def Let_def route_trip_with_companion_def
      createTrip_def updateTrip_def storage_updateTrip_def hook_one_trip_def
      initial_hook_state_def work_by_car_form_def generateTripNumber_def
      addTrip_def saveTrips_def getTrips_def json_trip_def)

text \<open>
  C5 as stated fails: a \<open>PUT\<close> that gives a trip created alone one accompanying
  traveler leaves \<open>totalTravelers\<close> at 1.
\<close>

theorem C5_update_keeps_totalTravelers:
  "map accompanyingTravelers
     (trips (run [Post work_by_car ''1'' 0,
                  Put ''trip_1''
                    (Some (no_updates\<lparr>u_accompanyingTravelers := Some [''traveler_1'']\<rparr>))
                    5 5]
               initial_route_state)) = [[''traveler_1'']]
   \<and> map totalTravelers
     (trips (run [Post work_by_car ''1'' 0,
                  Put ''trip_1''
                    (Some (no_updates\<lparr>u_accompanyingTravelers := Some [''traveler_1'']\<rparr>))
                    5 5]
               initial_route_state)) = [1]"
  by (simp add: run_def POST_def PUT_def initial_route_state_def work_by_car_def
      no_updates_def merge_trip_def completing_def Let_def)




text \<open>
  C7. \<open>PUT\<close> with a trip id that no trip of the collection has answers 404 (trip not
  found) and leaves the module state, the collection and the counter, as it was.
\<close>

theorem C7_PUT_unknown_tripId:
  assumes "tripId \<noteq> []" and "\<forall>t \<in> set (trips st). trip_id t \<noteq> tripId"
  shows "PUT tripId updates now now' st = (Inl Trip_not_found, st)
    \<and> http_status Trip_not_found = 404"
proof -
  from assms(2) have "findIndex (\<lambda>trip. trip_id trip = tripId) (trips st) = None"
    by (simp add: findIndex_None_iff)
  with assms(1) show ?thesis
    by (simp add: PUT_def)
qed

theorem C7_PUT_unknown_tripId_witness:
  "''trip_9'' \<noteq> []
   \<and> ''trip_9'' \<notin> set (map trip_id (trips route_one_trip))
   \<and> PUT ''trip_9'' (Some (no_updates\<lparr>u_status := Some Completed\<rparr>)) 5 6 route_one_trip
      = (Inl Trip_not_found, route_one_trip)"
proof -
  have h1: "''trip_9'' \<noteq> []"
    by simp
  have h2: "\<forall>t \<in> set (trips route_one_trip). trip_id t \<noteq> ''trip_9''"
    by (simp add: route_one_trip_def run_def POST_def initial_route_state_def
        work_by_car_def Let_def)
  have h3: "''trip_9'' \<notin> set (map trip_id (trips route_one_trip))"
    using h2 by auto
  show ?thesis
    using h1 h3 C7_PUT_unknown_tripId [OF h1 h2] by simp
qed

text \<open>
  C8. The claim: for every existing trip, \<open>completeTrip\<close> leaves the trip that
  \<open>updateTrip\<close> with the payload
  \<open>status=completed, destination, endTime=now, duration=computed, satisfactionRating=rating\<close>
  leaves. The hook breaks it for a trip that it has read from storage: the start time
  of such a trip is a string, \<open>trip.startTime.getTime()\<close> throws, and nothing is
  completed, where the \<open>updateTrip\<close> of the specification succeeds and stores the status
  \<open>completed\<close> and the duration 8 for a trip started at 0 and completed at 450000.
\<close>

theorem C8_completeTrip_throws_after_reload:
  "map trip_id (h_trips hook_reloaded) = [''trip_1'']
   \<and> map startTime (h_trips hook_reloaded) = [Date_string 0]
   \<and> completeTrip ''trip_1'' kochi (Some 5) 450000 450001 450002 450003 True hook_reloaded
       = (Inl TypeError, hook_reloaded)
   \<and> fst (completeTrip_spec ''trip_1'' kochi (Some 5) 450000 450001 450002 450003 True
            hook_reloaded)
   \<and> map status (h_trips (snd
        (completeTrip_spec ''trip_1'' kochi (Some 5) 450000 450001 450002 450003 True
           hook_reloaded))) = [Completed]
   \<and> map duration (h_trips (snd
        (completeTrip_spec ''trip_1'' kochi (Some 5) 450000 450001 450002 450003 True
           hook_reloaded))) = [Some 8]"
  by (simp add: hook_reloaded_def loadTrips_def hook_one_trip_def createTrip_def
      completeTrip_def completeTrip_spec_def updateTrip_def storage_updateTrip_def
      initial_hook_state_def work_by_car_form_def generateTripNumber_def addTrip_def
      saveTrips_def getTrips_def json_trip_def json_location_def kochi_def no_updates_def
      merge_trip_def Math_round_def Let_def)

text \<open>
  C9. Neither computation of \<open>avgDuration\<close> divides by zero: both always give a number.
  The route's statistics give 0 when no trip of the user has a (non-zero) duration, and
  the hook's \<open>getTripStats\<close> gives 0 when there is no completed trip.
\<close>

theorem C9_avgDuration_zero_guard:
  "(\<exists>v. stats_avgDuration userId st = Some v)
   \<and> (\<exists>v. getTripStats_avgDuration hst = Some v)
   \<and> ((\<forall>t \<in> set (trips st). primaryTraveler t = userId \<longrightarrow> \<not> truthy_num (duration t))
        \<longrightarrow> stats_avgDuration userId st = Some 0)
   \<and> ((\<forall>t \<in> set (h_trips hst). status t \<noteq> Completed)
        \<longrightarrow> getTripStats_avgDuration hst = Some 0)"
  using stats_avgDuration_defined [of userId st] getTripStats_avgDuration_defined [of hst]
    stats_avgDuration_zero [of st userId] getTripStats_avgDuration_zero [of hst]
  by blast

theorem C9_avgDuration_zero_guard_witness:
  "list_all (\<lambda>t. primaryTraveler t \<noteq> ''current_user'' \<or> \<not> truthy_num (duration t))
      (trips route_one_trip)
   \<and> stats_avgDuration ''current_user'' route_one_trip = Some 0
   \<and> list_all (\<lambda>t. status t \<noteq> Completed) (h_trips hook_one_trip)
   \<and> getTripStats_avgDuration hook_one_trip = Some 0"
  using C9_avgDuration_zero_guard [of "''current_user''" route_one_trip hook_one_trip]
  by (simp add: route_one_trip_def run_def POST_def initial_route_state_def work_by_car_def
      hook_one_trip_def createTrip_def initial_hook_state_def work_by_car_form_def
      generateTripNumber_def addTrip_def saveTrips_def getTrips_def Let_def)

text \<open>
  C10. In a \<open>PUT\<close> on an existing trip, the stored duration differs from the plain merge
  (the payload's \<open>duration\<close> key, or else the stored duration) only when the payload
  itself has \<open>status: 'completed'\<close> and a destination. With \<open>status: 'completed'\<close>, no
  destination and no duration in the payload, a trip without a duration stays without
  one, whatever destination it has stored.
\<close>

theorem C10_duration_gate:
  assumes "tripId \<noteq> []"
    and "findIndex (\<lambda>trip. trip_id trip = tripId) (trips st) = Some i"
  shows "\<exists>t'. PUT tripId (Some u) now now' st = (Inr t', st\<lparr> trips := (trips st)[i := t'] \<rparr>)
    \<and> (duration t' \<noteq> spread (u_duration u) (duration (trips st ! i))
          \<longrightarrow> u_status u = Some Completed \<and> (\<exists>d. u_destination u = Some (Some d)))
    \<and> (u_status u = Some Completed \<and> (u_destination u = None \<or> u_destination u = Some None)
          \<and> u_duration u = None \<and> duration (trips st ! i) = None
          \<longrightarrow> duration t' = None)"
proof (cases "completing u")
  case True
  with PUT_found [OF assms, of u now now'] show ?thesis
    by (auto simp: Let_def completing_iff)
next
  case False
  with PUT_found [OF assms, of u now now'] show ?thesis
    by (auto simp: Let_def duration_merge_trip)
qed

theorem C10_duration_gate_witness:
  "''trip_1'' \<noteq> []
   \<and> findIndex (\<lambda>trip. trip_id trip = ''trip_1'')
        (trips (run [Put ''trip_1''
                       (Some (no_updates\<lparr>u_destination := Some (Some kochi)\<rparr>)) 5 5]
                  route_one_trip)) = Some 0
   \<and> map destination
        (trips (run [Put ''trip_1''
                       (Some (no_updates\<lparr>u_destination := Some (Some kochi)\<rparr>)) 5 5]
                  route_one_trip)) = [Some kochi]
   \<and> map duration
        (trips (run [Put ''trip_1''
                       (Some (no_updates\<lparr>u_destination := Some (Some kochi)\<rparr>)) 5 5,
                     Put ''trip_1'' (Some (no_updates\<lparr>u_status := Some Completed\<rparr>))
                       450000 450000]
                  route_one_trip)) = [None]
   \<and> map status
        (trips (run [Put ''trip_1''
                       (Some (no_updates\<lparr>u_destination := Some (Some kochi)\<rparr>)) 5 5,
                     Put ''trip_1'' (Some (no_updates\<lparr>u_status := Some Completed\<rparr>))
                       450000 450000]
                  route_one_trip)) = [Completed]"
  using C10_duration_gate [of "''trip_1''"
      "run [Put ''trip_1'' (Some (no_updates\<lparr>u_destination := Some (Some kochi)\<rparr>)) 5 5]
         route_one_trip"
      0 "no_updates\<lparr>u_status := Some Completed\<rparr>" 450000 450000]
  by (simp add: run_def POST_def PUT_def initial_route_state_def work_by_car_def
      no_updates_def merge_trip_def completing_def Let_def route_one_trip_def)

end
